theory Spec2Isabelle
  imports Complex_Main
begin

section \<open>Python values, exceptions and strings\<close>

text \<open>
  The generator \<^verbatim>\<open>gen.py\<close> is a Python script.  Every exception it can raise is a value
  of \<open>py_error\<close>; a computation that may raise returns \<open>py_error + 'a\<close> with \<open>Inl\<close> the
  exception.  \<open>Exception msg\<close> is the plain \<^verbatim>\<open>raise Exception(msg)\<close> of the source;
  \<open>OSError\<close> stands for the exceptions with which the operating system refuses a file
  (\<^verbatim>\<open>FileNotFoundError\<close>, \<^verbatim>\<open>PermissionError\<close>, \<^verbatim>\<open>IsADirectoryError\<close> and the rest of that
  family).  Assertions are taken to be enabled (the script is not run with \<^verbatim>\<open>-O\<close>).
\<close>

datatype py_error =
  AttributeError | TypeError | ValueError | AssertionError | OSError | Exception string

definition bind_r :: "py_error + 'a \<Rightarrow> ('a \<Rightarrow> py_error + 'b) \<Rightarrow> py_error + 'b" where
  "bind_r m f = (case m of Inl e \<Rightarrow> Inl e | Inr x \<Rightarrow> f x)"

text \<open>
  A Python string is modelled by the list of its characters, each a \<open>char\<close> holding the
  code point.  The model is of ASCII text: code points below 128.  On such text
  \<^verbatim>\<open>str.upper\<close> and \<^verbatim>\<open>str.lower\<close> change the 26 letters and nothing else, \<^verbatim>\<open>\d\<close> and
  \<^verbatim>\<open>int\<close> know the ten digits \<^verbatim>\<open>0\<close> to \<^verbatim>\<open>9\<close>, and \<^verbatim>\<open>int\<close> strips the six characters
  tab, line feed, vertical tab, form feed, carriage return and space.  On other text the
  Python functions follow Unicode (other digits, other letters, case mappings that change
  the length) and the definitions below do not; \<open>ascii\<close> is the predicate that keeps a
  statement inside the modelled text.
\<close>

definition ascii :: "string \<Rightarrow> bool" where
  "ascii s = list_all (\<lambda>c. (of_char c :: nat) < 128) s"

definition upper_char :: "char \<Rightarrow> char" where
  "upper_char c = (let n = (of_char c :: nat) in
     if 97 \<le> n \<and> n \<le> 122 then char_of (n - 32) else c)"

definition lower_char :: "char \<Rightarrow> char" where
  "lower_char c = (let n = (of_char c :: nat) in
     if 65 \<le> n \<and> n \<le> 90 then char_of (n + 32) else c)"

definition upper :: "string \<Rightarrow> string" where
  "upper s = map upper_char s"

definition lower :: "string \<Rightarrow> string" where
  "lower s = map lower_char s"

text \<open>\<^verbatim>\<open>s.replace(" ", "_")\<close>: both arguments are one character long.\<close>

definition replace_char :: "char \<Rightarrow> char \<Rightarrow> string \<Rightarrow> string" where
  "replace_char old new s = map (\<lambda>c. if c = old then new else c) s"

text \<open>\<^verbatim>\<open>"{}".format(n)\<close> for an integer: its decimal numeral.\<close>

definition digit_char :: "nat \<Rightarrow> char" where
  "digit_char d = char_of (48 + d)"

fun str_nat :: "nat \<Rightarrow> string" where
  "str_nat n = (if n < 10 then [digit_char n] else str_nat (n div 10) @ [digit_char (n mod 10)])"

declare str_nat.simps [simp del]

definition str_int :: "int \<Rightarrow> string" where
  "str_int i = (if i < 0 then CHR ''-'' # str_nat (nat (- i)) else str_nat (nat i))"

text \<open>\<^verbatim>\<open>"{}".format(x)\<close> for an attribute that holds a string or \<^verbatim>\<open>None\<close>.\<close>

definition str_opt :: "string option \<Rightarrow> string" where
  "str_opt x = (case x of None \<Rightarrow> ''None'' | Some s \<Rightarrow> s)"

text \<open>
  \<^verbatim>\<open>int(x)\<close> on a string or \<^verbatim>\<open>None\<close>: \<^verbatim>\<open>None\<close> is a \<^verbatim>\<open>TypeError\<close>; a string is stripped of
  surrounding white space, may carry one sign, and is a run of decimal digits in which
  single underscores may separate digits; anything else is a \<^verbatim>\<open>ValueError\<close>.  Digits and
  white space are the ASCII ones: the characters 9 to 13 and 32 are white space.
\<close>

definition is_space :: "char \<Rightarrow> bool" where
  "is_space c = (let n = (of_char c :: nat) in (9 \<le> n \<and> n \<le> 13) \<or> n = 32)"

definition is_digit :: "char \<Rightarrow> bool" where
  "is_digit c = (let n = (of_char c :: nat) in 48 \<le> n \<and> n \<le> 57)"

definition strip :: "string \<Rightarrow> string" where
  "strip s = rev (dropWhile is_space (rev (dropWhile is_space s)))"

fun digits_value :: "string \<Rightarrow> bool \<Rightarrow> nat \<Rightarrow> nat option" where
  "digits_value [] prev acc = (if prev then Some acc else None)"
| "digits_value (c # cs) prev acc =
     (if is_digit c then digits_value cs True (acc * 10 + (of_char c - 48))
      else if c = CHR ''_'' \<and> prev then digits_value cs False acc
      else None)"

definition int_of_str :: "string \<Rightarrow> py_error + int" where
  "int_of_str s =
     (let t = strip s;
          neg = (case t of [] \<Rightarrow> False | c # _ \<Rightarrow> c = CHR ''-'');
          body = (case t of [] \<Rightarrow> [] | c # cs \<Rightarrow> if c = CHR ''-'' \<or> c = CHR ''+'' then cs else t)
      in case digits_value body False 0 of
           None \<Rightarrow> Inl ValueError
         | Some n \<Rightarrow> Inr (if neg then - int n else int n))"

definition py_int :: "string option \<Rightarrow> py_error + int" where
  "py_int x = (case x of None \<Rightarrow> Inl TypeError | Some s \<Rightarrow> int_of_str s)"

section \<open>The document tree\<close>

text \<open>
  An element of \<^verbatim>\<open>xml.etree.ElementTree\<close>: tag, attributes, text (\<^verbatim>\<open>None\<close> when the element
  has none) and children in document order.  \<open>et_find\<close> is \<^verbatim>\<open>node.find("./Tag")\<close>, the first
  child with that tag or \<^verbatim>\<open>None\<close>; \<open>et_get\<close> is \<^verbatim>\<open>node.get(key)\<close>.
\<close>

datatype xml = Element (tag: string) (attrib: "(string \<times> string) list")
  (etext: "string option") (children: "xml list")

text \<open>A document all of whose tags, attributes and texts are ASCII.\<close>

fun ascii_xml :: "xml \<Rightarrow> bool" where
  "ascii_xml (Element t a x cs) =
     (ascii t \<and> list_all (\<lambda>(k, v). ascii k \<and> ascii v) a \<and>
      (case x of None \<Rightarrow> True | Some s \<Rightarrow> ascii s) \<and> list_all ascii_xml cs)"

definition et_find :: "xml \<Rightarrow> string \<Rightarrow> xml option" where
  "et_find node t = List.find (\<lambda>c. tag c = t) (children node)"

definition et_get :: "xml \<Rightarrow> string \<Rightarrow> string option" where
  "et_get node k = map_of (attrib node) k"

text \<open>\<^verbatim>\<open>node.find("./Tag").text\<close>: an \<^verbatim>\<open>AttributeError\<close> when there is no such child.\<close>

definition find_text :: "xml \<Rightarrow> string \<Rightarrow> py_error + string option" where
  "find_text node t = (case et_find node t of None \<Rightarrow> Inl AttributeError | Some e \<Rightarrow> Inr (etext e))"

text \<open>\<^verbatim>\<open>obj_node.findall("./Resources/Item")\<close>.\<close>

definition findall_items :: "xml \<Rightarrow> xml list" where
  "findall_items node =
     concat (map (\<lambda>r. filter (\<lambda>c. tag c = ''Item'') (children r))
                 (filter (\<lambda>c. tag c = ''Resources'') (children node)))"

section \<open>The range expression\<close>

text \<open>
  \<^verbatim>\<open>range_regex = re.compile("^(?P<min>-?\d+\.?\d*)\.\.+(?P<max>-?\d+\.?\d*)")\<close>

  The matcher is a list-of-successes parser: each piece returns the pairs (text consumed,
  rest) in the order in which the backtracking matcher tries them, greedy choices first;
  \<^verbatim>\<open>match\<close> returns the first complete success.  \<^verbatim>\<open>\d\<close> is modelled on ASCII digits.
\<close>

definition rx_opt :: "char \<Rightarrow> string \<Rightarrow> (string \<times> string) list" where
  "rx_opt c s = (case s of [] \<Rightarrow> [] | x # xs \<Rightarrow> if x = c then [([c], xs)] else []) @ [([], s)]"

definition rx_plus :: "(char \<Rightarrow> bool) \<Rightarrow> string \<Rightarrow> (string \<times> string) list" where
  "rx_plus p s = (let run = takeWhile p s in
     map (\<lambda>n. (take n s, drop n s)) (rev [1 ..< Suc (length run)]))"

definition rx_star :: "(char \<Rightarrow> bool) \<Rightarrow> string \<Rightarrow> (string \<times> string) list" where
  "rx_star p s = rx_plus p s @ [([], s)]"

definition rx_number :: "string \<Rightarrow> (string \<times> string) list" where
  "rx_number s =
     concat (map (\<lambda>(a, r1).
       concat (map (\<lambda>(b, r2).
         concat (map (\<lambda>(c, r3).
           map (\<lambda>(d, r4). (a @ b @ c @ d, r4)) (rx_star is_digit r3))
           (rx_opt CHR ''.'' r2)))
         (rx_plus is_digit r1)))
       (rx_opt CHR ''-'' s))"

definition rx_dots :: "string \<Rightarrow> (string \<times> string) list" where
  "rx_dots s = (case s of [] \<Rightarrow> []
     | x # xs \<Rightarrow> if x = CHR ''.''
         then map (\<lambda>(e, r). (x # e, r)) (rx_plus (\<lambda>c. c = CHR ''.'') xs) else [])"

definition range_regex_match :: "string \<Rightarrow> (string \<times> string) option" where
  "range_regex_match s =
     (case concat (map (\<lambda>(mn, r1).
             concat (map (\<lambda>(ds, r2). map (\<lambda>(mx, r3). (mn, mx)) (rx_number r2)) (rx_dots r1)))
             (rx_number s)) of
        [] \<Rightarrow> None
      | m # _ \<Rightarrow> Some m)"

section \<open>The schema model\<close>

text \<open>
  The attributes of a \<^verbatim>\<open>LWM2MResource\<close>.  An attribute read from an element's text may
  hold \<^verbatim>\<open>None\<close>.  \<open>signed\<close> and \<open>byte_size\<close> are set for type \<^verbatim>\<open>"Integer"\<close> only;
  \<open>None\<close> stands for an attribute that was never assigned.
\<close>

record resource =
  r_id :: int
  r_name :: "string option"
  operations :: "string option"
  r_singleton :: bool
  r_mandatory :: bool
  r_type :: "string option"
  r_description :: "string option"
  signed :: "bool option"
  byte_size :: "int option"

record object =
  o_name :: "string option"
  desc1 :: "string option"
  o_id :: int
  objurn :: "string option"
  version :: "string option"
  o_singleton :: bool
  o_mandatory :: bool
  resources :: "resource list"

text \<open>\<^verbatim>\<open>res.operations.upper() == "E"\<close>\<close>

definition is_exec :: "resource \<Rightarrow> py_error + bool" where
  "is_exec res = (case operations res of
       None \<Rightarrow> Inl AttributeError
     | Some ops \<Rightarrow> Inr (upper ops = ''E''))"

text \<open>
  \<^verbatim>\<open>int(math.ceil(math.log2(max_val) / 8.0) * 8)\<close>; \<^verbatim>\<open>math.log2\<close> raises \<^verbatim>\<open>ValueError\<close>
  on an argument that is not positive.

  \<^verbatim>\<open>math.log2\<close> belongs to the library and returns a double, which is not the logarithm
  of the reals (for \<open>2 ^ 56 + 1\<close> it returns \<open>56\<close>).  It is the parameter \<open>math_log2\<close> of the
  model: the value, read as a real number, that the library returns for a positive integer.
  Nothing is assumed of it; a statement that needs to know the logarithm of some number says
  so in a hypothesis.  The division of a double by \<open>8.0\<close>, \<^verbatim>\<open>math.ceil\<close> (which returns an
  integer) and the product with 8 are exact.
\<close>

definition log2_byte_bits :: "(int \<Rightarrow> real) \<Rightarrow> int \<Rightarrow> py_error + int" where
  "log2_byte_bits math_log2 max_val =
     (if max_val \<le> 0 then Inl ValueError
      else Inr (\<lceil>math_log2 max_val / 8\<rceil> * 8))"

text \<open>
  The body of \<^verbatim>\<open>if self.type == "Integer":\<close> in \<^verbatim>\<open>LWM2MResource.__init__\<close>, from the text
  of the \<^verbatim>\<open>RangeEnumeration\<close> element to the pair \<open>(signed, byte_size)\<close>.
\<close>

definition integer_attrs :: "(int \<Rightarrow> real) \<Rightarrow> string option \<Rightarrow> py_error + (bool \<times> int)" where
  "integer_attrs math_log2 range_str =
     (case range_str of
        None \<Rightarrow> Inr (True, 32)
      | Some s \<Rightarrow>
          (case range_regex_match s of
             None \<Rightarrow> Inl AttributeError
           | Some (mn, mx) \<Rightarrow>
               bind_r (int_of_str mn) (\<lambda>min_val.
               bind_r (int_of_str mx) (\<lambda>max_val.
               bind_r (log2_byte_bits math_log2 max_val) (\<lambda>bits.
                 let sg = (min_val < 0);
                     bs = (if sg then bits * 2 else bits)
                 in if bs \<le> 64 then Inr (sg, bs) else Inl AssertionError)))))"

text \<open>\<^verbatim>\<open>LWM2MResource.__init__\<close>\<close>

definition LWM2MResource :: "(int \<Rightarrow> real) \<Rightarrow> xml \<Rightarrow> py_error + resource" where
  "LWM2MResource math_log2 res_node =
     bind_r (py_int (et_get res_node ''ID'')) (\<lambda>i.
     bind_r (find_text res_node ''Name'') (\<lambda>nm.
     bind_r (find_text res_node ''Operations'') (\<lambda>ops.
     bind_r (find_text res_node ''MultipleInstances'') (\<lambda>mi.
     bind_r (find_text res_node ''Mandatory'') (\<lambda>ma.
     bind_r (find_text res_node ''Type'') (\<lambda>ty.
     bind_r (find_text res_node ''Description'') (\<lambda>de.
     bind_r (if ty = Some ''Integer''
             then bind_r (find_text res_node ''RangeEnumeration'') (\<lambda>range_str.
                  bind_r (integer_attrs math_log2 range_str) (\<lambda>(sg, bs). Inr (Some sg, Some bs)))
             else Inr (None, None)) (\<lambda>(sg, bs).
       let self = \<lparr> r_id = i, r_name = nm, operations = ops,
                    r_singleton = (mi = Some ''Single''),
                    r_mandatory = (ma = Some ''Mandatory''),
                    r_type = ty, r_description = de,
                    signed = sg, byte_size = bs \<rparr>
       in bind_r (is_exec self) (\<lambda>ex.
            if \<not> ex
            then (case ty of
                    None \<Rightarrow> Inl TypeError
                  | Some t \<Rightarrow> if length t > 0 then Inr self else Inl AssertionError)
            else Inr self)))))))))"

text \<open>The loop over \<^verbatim>\<open>findall("./Resources/Item")\<close>: the first failing item ends it.\<close>

fun build_resources :: "(int \<Rightarrow> real) \<Rightarrow> xml list \<Rightarrow> py_error + resource list" where
  "build_resources math_log2 [] = Inr []"
| "build_resources math_log2 (n # ns) =
     bind_r (LWM2MResource math_log2 n) (\<lambda>r.
     bind_r (build_resources math_log2 ns) (\<lambda>rs. Inr (r # rs)))"

text \<open>
  \<^verbatim>\<open>LWM2MObject.__init__\<close>, applied to the result of \<^verbatim>\<open>root.find("Object")\<close>, which is
  \<^verbatim>\<open>None\<close> when the root has no such child.
\<close>

definition LWM2MObject :: "(int \<Rightarrow> real) \<Rightarrow> xml option \<Rightarrow> py_error + object" where
  "LWM2MObject math_log2 node =
     (case node of
        None \<Rightarrow> Inl AttributeError
      | Some obj_node \<Rightarrow>
          bind_r (find_text obj_node ''Name'') (\<lambda>nm.
          bind_r (find_text obj_node ''Description1'') (\<lambda>d1.
          bind_r (find_text obj_node ''ObjectID'') (\<lambda>idt.
          bind_r (py_int idt) (\<lambda>i.
          bind_r (find_text obj_node ''ObjectURN'') (\<lambda>urn.
          bind_r (find_text obj_node ''ObjectVersion'') (\<lambda>ver.
          bind_r (find_text obj_node ''MultipleInstances'') (\<lambda>mi.
          bind_r (find_text obj_node ''Mandatory'') (\<lambda>ma.
          bind_r (build_resources math_log2 (findall_items obj_node)) (\<lambda>rs.
            Inr \<lparr> o_name = nm, desc1 = d1, o_id = i, objurn = urn, version = ver,
                  o_singleton = (mi = Some ''Single''),
                  o_mandatory = (ma = Some ''Mandatory''),
                  resources = rs \<rparr>))))))))))"

section \<open>Generators\<close>

text \<open>
  Each \<^verbatim>\<open>gen_*\<close> function of the source is a Python generator, consumed by
  \<^verbatim>\<open>f.writelines\<close>.  Its model is the list of fragments it yields, in order, together
  with the exception that ended it, if any: the fragments yielded before an exception
  have already been written when it is raised.
\<close>

type_synonym fragments = "string list \<times> py_error option"

definition g_yield :: "string \<Rightarrow> fragments" where
  "g_yield s = ([s], None)"

definition g_raise :: "py_error \<Rightarrow> fragments" where
  "g_raise e = ([], Some e)"

definition g_then :: "fragments \<Rightarrow> fragments \<Rightarrow> fragments" where
  "g_then g h = (case snd g of Some e \<Rightarrow> g | None \<Rightarrow> (fst g @ fst h, snd h))"

fun g_all :: "fragments list \<Rightarrow> fragments" where
  "g_all [] = ([], None)"
| "g_all (g # gs) = g_then g (g_all gs)"

definition g_bind :: "py_error + 'a \<Rightarrow> ('a \<Rightarrow> fragments) \<Rightarrow> fragments" where
  "g_bind m f = (case m of Inl e \<Rightarrow> g_raise e | Inr x \<Rightarrow> f x)"

definition g_yield_r :: "py_error + string \<Rightarrow> fragments" where
  "g_yield_r m = g_bind m g_yield"

definition g_for :: "'a list \<Rightarrow> ('a \<Rightarrow> fragments) \<Rightarrow> fragments" where
  "g_for xs f = g_all (map f xs)"

subsection \<open>Derived identifiers\<close>

text \<open>\<^verbatim>\<open>string.upper().replace(" ", "_")\<close>; on \<^verbatim>\<open>None\<close> the method call raises.\<close>

definition def_format :: "string option \<Rightarrow> py_error + string" where
  "def_format x = (case x of
       None \<Rightarrow> Inl AttributeError
     | Some s \<Rightarrow> Inr (replace_char CHR '' '' CHR ''_'' (upper s)))"

definition name_format :: "string option \<Rightarrow> py_error + string" where
  "name_format x = (case x of
       None \<Rightarrow> Inl AttributeError
     | Some s \<Rightarrow> Inr (replace_char CHR '' '' CHR ''_'' (lower s)))"

definition gen_obj_id_def :: "object \<Rightarrow> py_error + string" where
  "gen_obj_id_def obj =
     bind_r (def_format (o_name obj)) (\<lambda>n. Inr (''LWM2M_OBJECT_'' @ n @ ''_ID''))"

definition gen_max_id :: "object \<Rightarrow> py_error + string" where
  "gen_max_id obj = bind_r (def_format (o_name obj)) (\<lambda>n. Inr (n @ ''_MAX_ID''))"

definition gen_res_def_name :: "object \<Rightarrow> resource \<Rightarrow> py_error + string" where
  "gen_res_def_name obj res =
     bind_r (def_format (o_name obj)) (\<lambda>a.
     bind_r (def_format (r_name res)) (\<lambda>b. Inr (a @ ''_'' @ b)))"

definition gen_res_id_name :: "object \<Rightarrow> resource \<Rightarrow> py_error + string" where
  "gen_res_id_name obj res = bind_r (gen_res_def_name obj res) (\<lambda>n. Inr (n @ ''_ID''))"

definition gen_res_max_name :: "object \<Rightarrow> resource \<Rightarrow> py_error + string" where
  "gen_res_max_name obj res = bind_r (gen_res_def_name obj res) (\<lambda>n. Inr (n @ ''_MAX''))"

definition gen_data_struct_var_name :: "object \<Rightarrow> py_error + string" where
  "gen_data_struct_var_name obj =
     bind_r (name_format (o_name obj)) (\<lambda>n. Inr (n @ ''_data''))"

definition gen_data_struct_type :: "object \<Rightarrow> py_error + string" where
  "gen_data_struct_type obj =
     bind_r (gen_data_struct_var_name obj) (\<lambda>v. Inr (''struct '' @ v @ ''_t''))"

definition gen_exec_cb_name :: "resource \<Rightarrow> py_error + string" where
  "gen_exec_cb_name res =
     bind_r (name_format (r_name res)) (\<lambda>n. Inr (''state_'' @ n @ ''_exec_cb''))"

subsection \<open>File head and resource definitions\<close>

definition gen_file_head :: "object \<Rightarrow> fragments" where
  "gen_file_head obj = g_all
     [g_yield (''/*\<newline>''),
      g_yield ('' * This is a generated stub\<newline>''),
      g_yield ('' *\<newline>''),
      g_yield ('' * SPDX-License-Identifier: Apache-2.0\<newline>''),
      g_yield ('' */\<newline>\<newline>''),
      g_yield_r (bind_r (name_format (o_name obj)) (\<lambda>n.
        Inr (''#define LOG_MODULE_NAME net_lwm2m_obj_'' @ n @ ''\<newline>''))),
      g_yield (''#define LOG_LEVEL CONFIG_LWM2M_LOG_LEVEL\<newline>\<newline>''),
      g_yield (''#include <logging/log.h>\<newline>''),
      g_yield (''LOG_MODULE_REGISTER(LOG_MODULE_NAME);\<newline>\<newline>''),
      g_yield (''#include <string.h>\<newline>''),
      g_yield (''#include <stdio.h>\<newline>''),
      g_yield (''#include <init.h>\<newline>\<newline>''),
      g_yield (''#include '' @ [CHR 0x22] @ ''lwm2m_object.h'' @ [CHR 0x22] @ ''\<newline>''),
      g_yield (''#include '' @ [CHR 0x22] @ ''lwm2m_engine.h'' @ [CHR 0x22] @ ''\<newline>\<newline>'')]"

text \<open>The line that defines one resource id, and the line that defines the maximum id.\<close>

definition res_id_define :: "object \<Rightarrow> resource \<Rightarrow> fragments" where
  "res_id_define obj res =
     g_yield_r (bind_r (gen_res_id_name obj res) (\<lambda>n.
       Inr (''#define '' @ n @ '' '' @ str_int (r_id res) @ ''\<newline>'')))"

definition max_id_define :: "object \<Rightarrow> fragments" where
  "max_id_define obj =
     g_yield_r (bind_r (gen_max_id obj) (\<lambda>n.
       Inr (''#define '' @ n @ '' '' @ str_int (int (length (resources obj))) @ ''\<newline>'')))"

text \<open>The block emitted for an object that is not a singleton.\<close>

definition instance_count_define :: "object \<Rightarrow> fragments" where
  "instance_count_define obj =
     (if \<not> o_singleton obj
      then g_bind (bind_r (def_format (o_name obj)) (\<lambda>n.
                     Inr (''CONFIG_LWM2M_'' @ n @ ''_INSTANCE_COUNT''))) (\<lambda>conf_name.
             g_all
               [g_yield (''#ifdef '' @ conf_name @ ''\<newline>''),
                g_yield (''#define MAX_INSTANCE_COUNT '' @ conf_name @ ''\<newline>''),
                g_yield (''#else\<newline>''),
                g_yield (''// FIXME: This default value is generated. Please evaluate if it is sane and remove this comment.\<newline>''),
                g_yield (''#define MAX_INSTANCE_COUNT 1\<newline>''),
                g_yield (''#endif\<newline>\<newline>'')])
      else g_all [])"

text \<open>The block emitted for one resource that is not a singleton.\<close>

definition res_max_define :: "object \<Rightarrow> resource \<Rightarrow> fragments" where
  "res_max_define obj res =
     (if \<not> r_singleton res
      then g_bind (gen_res_max_name obj res) (\<lambda>max_name.
             g_all
               [g_yield (''#ifdef CONFIG_'' @ max_name @ ''\<newline>''),
                g_yield (''#define '' @ max_name @ '' CONFIG_'' @ max_name @ ''\<newline>''),
                g_yield (''#else\<newline>''),
                g_yield (''// FIXME: This default value is generated. Please evaluate if it is sane and remove this comment.\<newline>''),
                g_yield (''#define '' @ max_name @ '' 1\<newline>''),
                g_yield (''#endif\<newline>\<newline>'')])
      else g_all [])"

definition gen_res_defs :: "object \<Rightarrow> fragments" where
  "gen_res_defs obj = g_all
     [g_yield (''// FIXME: This should probably be defined elsewhere\<newline>''),
      g_yield_r (bind_r (gen_obj_id_def obj) (\<lambda>d.
        Inr (''#define '' @ d @ '' '' @ str_int (o_id obj) @ ''\<newline>\<newline>''))),
      g_yield (''/* '' @ str_opt (o_name obj) @ '' resource IDs */\<newline>''),
      g_for (resources obj) (res_id_define obj),
      max_id_define obj,
      g_yield (''\<newline>''),
      instance_count_define obj,
      g_for (resources obj) (res_max_define obj)]"

subsection \<open>The resource instance count\<close>

text \<open>
  The first loop of \<^verbatim>\<open>gen_res_inst_count\<close>, with its two accumulators \<^verbatim>\<open>nr_exec\<close> and
  \<^verbatim>\<open>multi_resources\<close>.
\<close>

fun count_loop :: "resource list \<Rightarrow> nat \<Rightarrow> resource list \<Rightarrow> py_error + (nat \<times> resource list)" where
  "count_loop [] nr_exec multi_resources = Inr (nr_exec, multi_resources)"
| "count_loop (res # rest) nr_exec multi_resources =
     bind_r (is_exec res) (\<lambda>ex.
       if ex then count_loop rest (nr_exec + 1) multi_resources
       else if \<not> r_singleton res then count_loop rest nr_exec (multi_resources @ [res])
       else count_loop rest nr_exec multi_resources)"

text \<open>The comment, then the fragments of the definition itself.\<close>

definition inst_count_comment :: "object \<Rightarrow> nat \<Rightarrow> resource list \<Rightarrow> fragments" where
  "inst_count_comment obj nr_exec multi_resources = g_all
     [g_yield (''/*\<newline>''),
      g_yield ('' * Calculate resource instances as follows:\<newline>''),
      g_yield ('' * start with DEVICE_MAX_ID\<newline>''),
      g_yield ('' * subtract EXEC resources ('' @ str_int (int nr_exec) @ '')\<newline>''),
      g_yield ('' * subtract MULTI resources because their counts include 0 resource (''
                 @ str_int (int (length multi_resources)) @ '')\<newline>''),
      g_for multi_resources (\<lambda>res.
        g_yield_r (bind_r (gen_res_max_name obj res) (\<lambda>n. Inr ('' * add '' @ n @ ''\<newline>'')))),
      g_yield ('' */\<newline>'')]"

definition inst_count_define :: "object \<Rightarrow> nat \<Rightarrow> resource list \<Rightarrow> fragments" where
  "inst_count_define obj nr_exec multi_resources = g_all
     [g_yield_r (bind_r (gen_max_id obj) (\<lambda>m.
        Inr (''#define RESOURCE_INSTANCE_COUNT ('' @ m @ '' - '' @ str_int (int nr_exec)
               @ '' - '' @ str_int (int (length multi_resources))))),
      (if length multi_resources > 0
       then g_for multi_resources (\<lambda>res.
              g_yield_r (bind_r (gen_res_max_name obj res) (\<lambda>n.
                Inr ('' '' @ [CHR 0x5C] @ ''\<newline>                                 + '' @ n))))
       else g_all []),
      g_yield ('')\<newline>'')]"

definition gen_res_inst_count :: "object \<Rightarrow> fragments" where
  "gen_res_inst_count obj =
     g_bind (count_loop (resources obj) 0 []) (\<lambda>(nr_exec, multi_resources).
       g_then (inst_count_comment obj nr_exec multi_resources)
              (inst_count_define obj nr_exec multi_resources))"

subsection \<open>The data structure\<close>

text \<open>
  The \<^verbatim>\<open>if\<close>/\<^verbatim>\<open>elif\<close> chain of \<^verbatim>\<open>gen_data_struct\<close> on \<^verbatim>\<open>res.type\<close>: the pair
  \<^verbatim>\<open>(typ, typ_suffix)\<close>, with \<^verbatim>\<open>data_len = 64\<close>.  Reading \<^verbatim>\<open>res.signed\<close> or
  \<^verbatim>\<open>res.byte_size\<close> where it was never assigned is an \<^verbatim>\<open>AttributeError\<close>.
\<close>

definition data_struct_type :: "resource \<Rightarrow> py_error + (string \<times> string)" where
  "data_struct_type res =
     (let data_len = (64 :: int) in
      if r_type res = Some ''String'' then Inr (''char'', ''['' @ str_int data_len @ '']'')
      else if r_type res = Some ''Integer'' then
        (case signed res of
           None \<Rightarrow> Inl AttributeError
         | Some sg \<Rightarrow>
             (case byte_size res of
                None \<Rightarrow> Inl AttributeError
              | Some bs \<Rightarrow>
                  Inr ((if sg then '''' else ''u'') @ ''int'' @ str_int bs @ ''_t'', '''')))
      else if r_type res = Some ''Objlnk'' then Inr (''struct lwm2m_objlnk'', '''')
      else if r_type res = Some ''Float'' then Inr (''float32_value_t'', '''')
      else if r_type res = Some ''Opaque'' then Inr (''uint8_t'', ''['' @ str_int data_len @ '']'')
      else if r_type res = Some ''Time'' then Inr (''uint32_t'', '''')
      else if r_type res = Some ''Boolean'' then Inr (''bool'', '''')
      else Inl (Exception ''Unhandled / bad resource type''))"

text \<open>The body of the loop of \<^verbatim>\<open>gen_data_struct\<close> for one resource.\<close>

definition data_struct_member :: "resource \<Rightarrow> fragments" where
  "data_struct_member res =
     g_bind (is_exec res) (\<lambda>ex.
       if ex then g_all []
       else g_bind (data_struct_type res) (\<lambda>(typ, typ_suffix).
              g_yield_r (bind_r (name_format (r_name res)) (\<lambda>n.
                Inr ([CHR 0x09] @ typ @ '' '' @ n @ typ_suffix @ '';\<newline>'')))))"

definition gen_data_struct :: "object \<Rightarrow> fragments" where
  "gen_data_struct obj = g_all
     [g_yield_r (bind_r (gen_data_struct_type obj) (\<lambda>t. Inr (t @ '' {\<newline>''))),
      g_for (resources obj) data_struct_member,
      g_yield_r (bind_r (name_format (o_name obj)) (\<lambda>n. Inr (''};\<newline>\<newline>''))),
      (let arr_suffix = (if \<not> o_singleton obj then ''[MAX_INSTANCE_COUNT]'' else '''') in
       g_yield_r (bind_r (gen_data_struct_type obj) (\<lambda>t.
                  bind_r (gen_data_struct_var_name obj) (\<lambda>v.
                    Inr (''static '' @ t @ '' '' @ v @ arr_suffix @ '';\<newline>\<newline>'')))))]"

subsection \<open>The field table\<close>

text \<open>The second \<^verbatim>\<open>if\<close>/\<^verbatim>\<open>elif\<close> chain on \<^verbatim>\<open>res.type\<close>, in \<^verbatim>\<open>gen_field\<close>.\<close>

definition field_type_tag :: "resource \<Rightarrow> py_error + string" where
  "field_type_tag res =
     (if r_type res = Some ''String'' then Inr (''STRING'')
      else if r_type res = Some ''Integer'' then
        (case signed res of
           None \<Rightarrow> Inl AttributeError
         | Some sg \<Rightarrow>
             (case byte_size res of
                None \<Rightarrow> Inl AttributeError
              | Some bs \<Rightarrow> Inr ((if sg then ''S'' else ''U'') @ str_int bs)))
      else if r_type res = Some ''Objlnk'' then Inr (''OBJLNK'')
      else if r_type res = Some ''Float'' then Inr (''FLOAT32'')
      else if r_type res = Some ''Opaque'' then Inr (''OPAQUE'')
      else if r_type res = Some ''Time'' then Inr (''TIME'')
      else if r_type res = Some ''Boolean'' then Inr (''BOOL'')
      else Inl (Exception ''Unhandled / bad resource type''))"

definition gen_field :: "object \<Rightarrow> resource \<Rightarrow> py_error + string" where
  "gen_field obj res =
     bind_r (is_exec res) (\<lambda>ex.
       if ex
       then (let suffix = (if r_mandatory res then '''' else ''_OPT'') in
             bind_r (gen_res_id_name obj res) (\<lambda>n.
               Inr (''OBJ_FIELD_EXECUTE'' @ suffix @ ''('' @ n @ '')'')))
       else (let ops = (if r_mandatory res then str_opt (operations res)
                        else str_opt (operations res) @ ''_OPT'') in
             bind_r (field_type_tag res) (\<lambda>typ.
             bind_r (gen_res_id_name obj res) (\<lambda>n.
               Inr (''OBJ_FIELD_DATA('' @ n @ '', '' @ ops @ '', '' @ typ @ '')'')))))"

text \<open>The body of the \<^verbatim>\<open>enumerate\<close> loop of \<^verbatim>\<open>gen_fields\<close>.\<close>

definition field_entry :: "object \<Rightarrow> nat \<times> resource \<Rightarrow> fragments" where
  "field_entry obj p =
     (case p of (ix, res) \<Rightarrow> g_all
        [g_yield_r (bind_r (gen_field obj res) (\<lambda>f. Inr ([CHR 0x09] @ f))),
         (if int ix < int (length (resources obj)) - 1 then g_yield ('','') else g_all []),
         g_yield (''\<newline>'')])"

definition gen_fields :: "object \<Rightarrow> fragments" where
  "gen_fields obj =
     (let max_inst = (if o_singleton obj then '''' else ''[MAX_INSTANCE_COUNT]'') in
      g_all
        [g_yield_r (bind_r (name_format (o_name obj)) (\<lambda>n.
           Inr (''static struct lwm2m_engine_obj '' @ n @ '';\<newline>''))),
         g_yield (''static struct lwm2m_engine_obj_field fields[] = {\<newline>''),
         g_for (enumerate 0 (resources obj)) (field_entry obj),
         g_yield (''};\<newline>\<newline>''),
         g_yield (''static struct lwm2m_engine_obj_inst inst'' @ max_inst @ '';\<newline>''),
         g_yield_r (bind_r (gen_max_id obj) (\<lambda>m.
           Inr (''static struct lwm2m_engine_res res'' @ max_inst @ ''['' @ m @ ''];\<newline>''))),
         g_yield (''static struct lwm2m_engine_res_inst res_inst'' @ max_inst
                    @ ''[RESOURCE_INSTANCE_COUNT];\<newline>''),
         g_yield (''\<newline>'')])"

subsection \<open>Execute callbacks\<close>

text \<open>The body of the loop of \<^verbatim>\<open>gen_exec_cbs\<close> for one resource.\<close>

definition exec_cb_stub :: "resource \<Rightarrow> fragments" where
  "exec_cb_stub res =
     g_bind (is_exec res) (\<lambda>ex.
       if \<not> ex \<or> \<not> r_mandatory res then g_all []
       else g_all
         [g_yield_r (bind_r (gen_exec_cb_name res) (\<lambda>n.
            Inr (''static int '' @ n @ ''(uint16_t obj_inst_id)\<newline>''))),
          g_yield (''{\<newline>''),
          g_yield ([CHR 0x09] @ ''/* FIXME: Add exec callback implementation here */\<newline>''),
          g_yield ([CHR 0x09] @ ''return 0;\<newline>''),
          g_yield (''}\<newline>\<newline>'')])"

definition gen_exec_cbs :: "object \<Rightarrow> fragments" where
  "gen_exec_cbs obj = g_for (resources obj) exec_cb_stub"

subsection \<open>The create function\<close>

definition CHECK_AVAIL :: string where
  "CHECK_AVAIL = ''\<newline>    /* Check that there is no other instance with this ID */\<newline>'' @ [CHR 0x09] @ ''for (index = 0; index < ARRAY_SIZE(inst); index++) {\<newline>'' @ [CHR 0x09] @ [CHR 0x09] @ ''if (inst[index].obj && inst[index].obj_inst_id == obj_inst_id) {\<newline>'' @ [CHR 0x09] @ [CHR 0x09] @ [CHR 0x09] @ ''LOG_ERR('' @ [CHR 0x22] @ ''Can not create instance - '' @ [CHR 0x22] @ ''\<newline>'' @ [CHR 0x09] @ [CHR 0x09] @ [CHR 0x09] @ [CHR 0x09] @ [CHR 0x22] @ ''already existing: %u'' @ [CHR 0x22] @ '', obj_inst_id);\<newline>'' @ [CHR 0x09] @ [CHR 0x09] @ [CHR 0x09] @ ''return NULL;\<newline>'' @ [CHR 0x09] @ [CHR 0x09] @ ''}\<newline>\<newline>'' @ [CHR 0x09] @ [CHR 0x09] @ ''/* Save first available slot index */\<newline>'' @ [CHR 0x09] @ [CHR 0x09] @ ''if (avail < 0 && !inst[index].obj) {\<newline>'' @ [CHR 0x09] @ [CHR 0x09] @ [CHR 0x09] @ ''avail = index;\<newline>'' @ [CHR 0x09] @ [CHR 0x09] @ ''}\<newline>'' @ [CHR 0x09] @ ''}\<newline>\<newline>'' @ [CHR 0x09] @ ''if (avail < 0) {\<newline>'' @ [CHR 0x09] @ [CHR 0x09] @ ''LOG_ERR('' @ [CHR 0x22] @ ''Can not create instance - no more room: %u'' @ [CHR 0x22] @ '',\<newline>'' @ [CHR 0x09] @ [CHR 0x09] @ [CHR 0x09] @ ''obj_inst_id);\<newline>'' @ [CHR 0x09] @ [CHR 0x09] @ ''return NULL;\<newline>'' @ [CHR 0x09] @ ''}\<newline>    ''"

text \<open>The body of the loop of \<^verbatim>\<open>gen_create_func\<close> for one resource.\<close>

definition create_res_init :: "object \<Rightarrow> string \<Rightarrow> string \<Rightarrow> string \<Rightarrow> resource \<Rightarrow> fragments" where
  "create_res_init obj data_str res_str res_inst_str res =
     g_bind (is_exec res) (\<lambda>ex.
       if ex
       then g_all
         [g_yield_r (bind_r (gen_res_id_name obj res) (\<lambda>n.
            Inr ([CHR 0x09] @ ''INIT_OBJ_RES_EXECUTE('' @ n @ '', '' @ res_str @ '', i,\<newline>''))),
          g_yield ([CHR 0x09] @ ''                 ''),
          (if r_mandatory res then g_yield_r (gen_exec_cb_name res) else g_yield (''NULL'')),
          g_yield ('');\<newline>'')]
       else
         (let prefix0 = '''';
              prefix1 = (if \<not> r_mandatory res then prefix0 @ ''OPT'' else prefix0);
              prefix = (if \<not> r_singleton res then ''MULTI_'' @ prefix1 else prefix1);
              macro = ''INIT_OBJ_RES_'' @ prefix @ ''DATA'';
              spaces = replicate (length macro) CHR '' ''
          in g_all
            [g_yield_r (bind_r (gen_res_id_name obj res) (\<lambda>n.
               Inr ([CHR 0x09] @ macro @ ''('' @ n @ '',\<newline>''))),
             g_yield ([CHR 0x09] @ spaces @ '' '' @ res_str @ '', i, '' @ res_inst_str @ '', j''),
             (if \<not> r_singleton res
              then g_all
                [g_yield ('',\<newline>''),
                 g_yield_r (bind_r (gen_res_max_name obj res) (\<lambda>n.
                   Inr ([CHR 0x09] @ spaces @ '' '' @ n @ '', false'')))]
              else g_all []),
             (if r_mandatory res
              then g_all
                [g_yield ('',\<newline>''),
                 g_yield_r (bind_r (name_format (r_name res)) (\<lambda>n.
                   Inr ([CHR 0x09] @ spaces @ '' &'' @ data_str @ n @ '',\<newline>''))),
                 g_yield_r (bind_r (name_format (r_name res)) (\<lambda>n.
                   Inr ([CHR 0x09] @ spaces @ '' sizeof('' @ data_str @ n @ '')'')))]
              else g_all []),
             g_yield ('');\<newline>'')]))"

text \<open>
  The part of \<^verbatim>\<open>gen_create_func\<close> after the \<^verbatim>\<open>if not obj.singleton\<close> statement, which
  fixes the four strings \<^verbatim>\<open>data_str\<close>, \<^verbatim>\<open>res_str\<close>, \<^verbatim>\<open>res_inst_str\<close> and \<^verbatim>\<open>inst_str\<close>.
\<close>

definition create_func_tail :: "object \<Rightarrow> string \<Rightarrow> string \<Rightarrow> string \<Rightarrow> string \<Rightarrow> fragments" where
  "create_func_tail obj data_str res_str res_inst_str inst_str = g_all
     [g_yield ([CHR 0x09] @ ''(void)memset('' @ res_str @ '', 0,\<newline>''),
      g_yield ([CHR 0x09] @ ''             sizeof('' @ res_str @ ''[0]) * ARRAY_SIZE('' @ res_str @ ''));\<newline>\<newline>''),
      g_yield ([CHR 0x09] @ ''init_res_instance('' @ res_inst_str @ '', ARRAY_SIZE('' @ res_inst_str @ ''));\<newline>\<newline>''),
      g_yield ([CHR 0x09] @ ''/* initialize instance resource data */\<newline>''),
      g_for (resources obj) (create_res_init obj data_str res_str res_inst_str),
      g_yield (''\<newline>'' @ [CHR 0x09] @ inst_str @ ''.resources = '' @ res_str @ '';\<newline>''),
      g_yield ([CHR 0x09] @ inst_str @ ''.resource_count = i;\<newline>''),
      g_yield (''\<newline>'' @ [CHR 0x09] @ ''LOG_DBG('' @ [CHR 0x22] @ ''Create '' @ str_opt (o_name obj) @ '' instance: %d'' @ [CHR 0x22] @ '', obj_inst_id);\<newline>\<newline>''),
      g_yield ([CHR 0x09] @ ''return &'' @ inst_str @ '';\<newline>''),
      g_yield (''}\<newline>\<newline>'')]"

definition gen_create_func :: "object \<Rightarrow> fragments" where
  "gen_create_func obj = g_all
     [g_yield_r (bind_r (name_format (o_name obj)) (\<lambda>n.
        Inr (''static struct lwm2m_engine_obj_inst *'' @ n @ ''_create(uint16_t obj_inst_id)\<newline>''))),
      g_yield (''{\<newline>''),
      g_yield ([CHR 0x09] @ ''int i = 0;\<newline>''),
      g_yield ([CHR 0x09] @ ''int j = 0;\<newline>\<newline>''),
      g_yield ([CHR 0x09] @ ''/* Set default values */\<newline>''),
      (if \<not> o_singleton obj
       then g_all
         [g_yield ([CHR 0x09] @ ''int index = -1;\<newline>''),
          g_yield ([CHR 0x09] @ ''int avail = -1;\<newline>''),
          g_yield_r (bind_r (gen_data_struct_type obj) (\<lambda>t. Inr ([CHR 0x09] @ t @ '' *instance;\<newline>''))),
          g_yield CHECK_AVAIL,
          g_yield_r (bind_r (gen_data_struct_var_name obj) (\<lambda>v.
            Inr ([CHR 0x09] @ ''instance = &'' @ v @ ''[avail];\<newline>''))),
          g_yield_r (bind_r (gen_data_struct_var_name obj) (\<lambda>v.
            Inr ([CHR 0x09] @ ''(void)memset(instance, 0, sizeof('' @ v @ ''[avail]));\<newline>''))),
          create_func_tail obj (''instance->'') (''res[avail]'') (''res_inst[avail]'')
            (''inst[avail]'')]
       else g_all
         [g_yield_r (bind_r (gen_data_struct_var_name obj) (\<lambda>v.
            Inr ([CHR 0x09] @ ''(void)memset(&'' @ v @ '', 0, sizeof('' @ v @ ''));\<newline>''))),
          g_bind (gen_data_struct_var_name obj) (\<lambda>v.
            create_func_tail obj (v @ ''.'') (''res'') (''res_inst'') (''inst''))])]"

subsection \<open>The init function\<close>

definition gen_init_func :: "object \<Rightarrow> fragments" where
  "gen_init_func obj = g_all
     [g_yield_r (bind_r (name_format (o_name obj)) (\<lambda>n.
        Inr (''static int lwm2m_'' @ n @ ''_init(const struct device *dev)\<newline>''))),
      g_yield (''{\<newline>''),
      (if o_singleton obj
       then g_all
         [g_yield ([CHR 0x09] @ ''struct lwm2m_engine_obj_inst *obj_inst;\<newline>''),
          g_yield ([CHR 0x09] @ ''int ret;\<newline>\<newline>'')]
       else g_all []),
      g_yield_r (bind_r (name_format (o_name obj)) (\<lambda>n.
      bind_r (gen_obj_id_def obj) (\<lambda>d.
        Inr ([CHR 0x09] @ n @ ''.obj_id = '' @ d @ '';\<newline>'')))),
      g_yield_r (bind_r (name_format (o_name obj)) (\<lambda>n.
        Inr ([CHR 0x09] @ n @ ''.fields = fields;\<newline>''))),
      g_yield_r (bind_r (name_format (o_name obj)) (\<lambda>n.
        Inr ([CHR 0x09] @ n @ ''.field_count = ARRAY_SIZE(fields);\<newline>''))),
      (if o_singleton obj
       then g_yield_r (bind_r (name_format (o_name obj)) (\<lambda>n.
              Inr ([CHR 0x09] @ n @ ''.max_instance_count = 1;\<newline>'')))
       else g_yield_r (bind_r (name_format (o_name obj)) (\<lambda>n.
              Inr ([CHR 0x09] @ n @ ''.max_instance_count = MAX_INSTANCE_COUNT;\<newline>'')))),
      g_yield_r (bind_r (name_format (o_name obj)) (\<lambda>n.
        Inr ([CHR 0x09] @ n @ ''.create_cb = '' @ n @ ''_create;\<newline>''))),
      g_yield_r (bind_r (name_format (o_name obj)) (\<lambda>n.
        Inr ([CHR 0x09] @ ''lwm2m_register_obj(&'' @ n @ '');\<newline>\<newline>''))),
      (if o_singleton obj
       then g_all
         [g_yield ([CHR 0x09] @ ''/* auto create the only instance */\<newline>''),
          g_yield ([CHR 0x09] @ ''obj_inst = NULL;\<newline>''),
          g_yield ([CHR 0x09] @ ''ret = lwm2m_create_obj_inst(''),
          g_yield_r (bind_r (gen_obj_id_def obj) (\<lambda>d. Inr (d @ '', 0, &obj_inst);\<newline>''))),
          g_yield ([CHR 0x09] @ ''if (ret < 0) {\<newline>''),
          g_yield ([CHR 0x09] @ [CHR 0x09] @ ''LOG_DBG('' @ [CHR 0x22] @ ''Create LWM2M instance 0 error: %d'' @ [CHR 0x22] @ '', ret);\<newline>''),
          g_yield ([CHR 0x09] @ ''}\<newline>\<newline>''),
          g_yield ([CHR 0x09] @ ''return ret;\<newline>'')]
       else g_yield ([CHR 0x09] @ ''return 0;\<newline>'')),
      g_yield (''}\<newline>\<newline>''),
      g_yield_r (bind_r (name_format (o_name obj)) (\<lambda>n.
        Inr (''SYS_INIT(lwm2m_'' @ n @ ''_init, APPLICATION, ''))),
      g_yield (''CONFIG_KERNEL_INIT_PRIORITY_DEFAULT);\<newline>'')]"

section \<open>The driver\<close>

text \<open>
  The world \<^verbatim>\<open>main\<close> acts on: the files, by path, what has been printed, and the answer
  of the operating system to a request to open a path for writing (\<open>None\<close> when it grants
  it, the exception otherwise: a path through a directory that does not exist, as the name
  \<^verbatim>\<open>On/Off switch\<close> makes one, a directory that may not be written, and so on).  Reading
  and parsing the input file belong to the library (\<^verbatim>\<open>ET.parse(path).getroot()\<close>) and are
  the parameter \<open>et_parse\<close>.

  \<^verbatim>\<open>open(name, "w")\<close> raises what the operating system answers and then nothing has been
  created; otherwise it creates the file or truncates it.  \<^verbatim>\<open>writelines\<close> writes each
  fragment as the generator yields it; leaving the \<^verbatim>\<open>with\<close> block closes the file, also
  when an exception passes through it.  So after the \<^verbatim>\<open>with\<close> block the file holds the
  fragments yielded until then.  Writing to the open file and closing it are taken to
  succeed.  \<open>render\<close> is the body of the \<^verbatim>\<open>with\<close> block.
\<close>

record world =
  files :: "string \<rightharpoonup> string"
  stdout :: "string list"
  open_error :: "string \<Rightarrow> py_error option"

definition render :: "object \<Rightarrow> fragments" where
  "render obj = g_all
     [gen_file_head obj,
      gen_res_defs obj,
      gen_res_inst_count obj,
      gen_data_struct obj,
      gen_fields obj,
      gen_exec_cbs obj,
      gen_create_func obj,
      gen_init_func obj]"

definition output_name :: "object \<Rightarrow> py_error + string" where
  "output_name obj =
     bind_r (name_format (o_name obj)) (\<lambda>n. Inr (''lwm2m_obj_'' @ n @ ''_stub.c''))"

definition main ::
  "(int \<Rightarrow> real) \<Rightarrow> string list \<Rightarrow> (string \<Rightarrow> py_error + xml) \<Rightarrow> world \<Rightarrow> py_error option \<times> world" where
  "main math_log2 argv et_parse w =
     (if length argv < 2
      then (None, w\<lparr>stdout := stdout w @
              [''No argument given. The path XML file descirbing'',
               ''the LWM2M object in question is expected as argument'',
               ''\<newline>Exampel '' @ [CHR 0x27] @ ''gen.py 3.xml'' @ [CHR 0x27]]\<rparr>)
      else
        (case et_parse (argv ! 1) of
           Inl e \<Rightarrow> (Some e, w)
         | Inr doc_root \<Rightarrow>
             (case LWM2MObject math_log2 (et_find doc_root ''Object'') of
                Inl e \<Rightarrow> (Some e, w)
              | Inr obj \<Rightarrow>
                  (case output_name obj of
                     Inl e \<Rightarrow> (Some e, w)
                   | Inr path \<Rightarrow>
                       (case open_error w path of
                          Some e \<Rightarrow> (Some e, w)
                        | None \<Rightarrow>
                            (case render obj of
                               (frags, err) \<Rightarrow>
                                 (err, w\<lparr>files := (files w)(path \<mapsto> concat frags)\<rparr>)))))))"

section \<open>A value for the library logarithm\<close>

text \<open>
  Statements about one concrete run need a value for the parameter \<open>math_log2\<close>.  The
  logarithm of the reals serves where the run takes no logarithm at all, or takes that of
  \<open>100000\<close>, which lies strictly between 16 and 24 for the library as for the reals.
\<close>

definition exact_log2 :: "int \<Rightarrow> real" where
  "exact_log2 v = log 2 (real_of_int v)"

section \<open>The words of the specification\<close>

text \<open>
  The two counts of the sizing formula, as the specification words them: the number of
  execute fields, and the fields that are neither execute fields nor singletons.
\<close>

definition exec_count :: "object \<Rightarrow> nat" where
  "exec_count obj = length (filter (\<lambda>r. is_exec r = Inr True) (resources obj))"

definition multi_data_fields :: "object \<Rightarrow> resource list" where
  "multi_data_fields obj = filter (\<lambda>r. is_exec r = Inr False \<and> \<not> r_singleton r) (resources obj)"

text \<open>
  The fields that are not execute fields, which the data structure is to hold, and the
  mandatory execute fields, which are to get a callback stub; both in document order.
\<close>

definition data_fields :: "object \<Rightarrow> resource list" where
  "data_fields obj = filter (\<lambda>r. is_exec r = Inr False) (resources obj)"

definition mandatory_exec_fields :: "object \<Rightarrow> resource list" where
  "mandatory_exec_fields obj = filter (\<lambda>r. is_exec r = Inr True \<and> r_mandatory r) (resources obj)"


section \<open>Example objects\<close>

text \<open>
  An object with one multi-instance Integer field, one mandatory execute field and one
  optional multi-instance String field, whose ids are neither contiguous nor start at 0.
\<close>

definition ex_field_a :: resource where
  "ex_field_a = \<lparr> r_id = 5, r_name = Some ''Field A'', operations = Some ''RW'',
     r_singleton = False, r_mandatory = True, r_type = Some ''Integer'',
     r_description = None, signed = Some False, byte_size = Some 8 \<rparr>"

definition ex_field_b :: resource where
  "ex_field_b = \<lparr> r_id = 17, r_name = Some ''Field B'', operations = Some ''E'',
     r_singleton = True, r_mandatory = True, r_type = None,
     r_description = None, signed = None, byte_size = None \<rparr>"

definition ex_field_c :: resource where
  "ex_field_c = \<lparr> r_id = 40, r_name = Some ''Field C'', operations = Some ''R'',
     r_singleton = False, r_mandatory = False, r_type = Some ''String'',
     r_description = None, signed = None, byte_size = None \<rparr>"

definition ex_object :: object where
  "ex_object = \<lparr> o_name = Some ''Test Object'', desc1 = None, o_id = 9999, objurn = None,
     version = None, o_singleton = False, o_mandatory = True,
     resources = [ex_field_a, ex_field_b, ex_field_c] \<rparr>"

text \<open>
  A resource item of type Integer with the given text in its \<^verbatim>\<open>RangeEnumeration\<close> element,
  and the resource it is expected to give.
\<close>

definition leaf :: "string \<Rightarrow> string option \<Rightarrow> xml" where
  "leaf t x = Element t [] x []"

definition integer_item :: "string option \<Rightarrow> xml" where
  "integer_item range_text = Element ''Item'' [(''ID'', ''1'')] None
     [leaf ''Name'' (Some ''Level''), leaf ''Operations'' (Some ''RW''),
      leaf ''MultipleInstances'' (Some ''Single''), leaf ''Mandatory'' (Some ''Mandatory''),
      leaf ''Type'' (Some ''Integer''), leaf ''RangeEnumeration'' range_text,
      leaf ''Units'' None, leaf ''Description'' None]"

definition integer_resource :: "bool \<Rightarrow> int \<Rightarrow> resource" where
  "integer_resource sg bs = \<lparr> r_id = 1, r_name = Some ''Level'', operations = Some ''RW'',
     r_singleton = True, r_mandatory = True, r_type = Some ''Integer'',
     r_description = None, signed = Some sg, byte_size = Some bs \<rparr>"

text \<open>The same item without any \<^verbatim>\<open>RangeEnumeration\<close> element.\<close>

definition integer_item_no_range :: xml where
  "integer_item_no_range = Element ''Item'' [(''ID'', ''1'')] None
     [leaf ''Name'' (Some ''Level''), leaf ''Operations'' (Some ''RW''),
      leaf ''MultipleInstances'' (Some ''Single''), leaf ''Mandatory'' (Some ''Mandatory''),
      leaf ''Type'' (Some ''Integer''),
      leaf ''Units'' None, leaf ''Description'' None]"

section \<open>Required elements\<close>

text \<open>
  The elements that the constructors read by a fixed path from the object element and from
  each resource item (an item also needs its \<^verbatim>\<open>ID\<close> attribute), and the documents in which
  one of them is missing.
\<close>

definition object_required :: "string list" where
  "object_required = [''Name'', ''Description1'', ''ObjectID'', ''ObjectURN'', ''ObjectVersion'',
     ''MultipleInstances'', ''Mandatory'']"

definition resource_required :: "string list" where
  "resource_required = [''Name'', ''Operations'', ''MultipleInstances'', ''Mandatory'', ''Type'',
     ''Description'']"

definition missing_required :: "xml \<Rightarrow> bool" where
  "missing_required doc_root =
     (case et_find doc_root ''Object'' of
        None \<Rightarrow> True
      | Some obj_node \<Rightarrow>
          (\<exists>t \<in> set object_required. et_find obj_node t = None) \<or>
          (\<exists>item \<in> set (findall_items obj_node).
             et_get item ''ID'' = None \<or> (\<exists>t \<in> set resource_required. et_find item t = None)))"

text \<open>
  A document with one object named \<^verbatim>\<open>T\<close>, parameterised by its \<^verbatim>\<open>Mandatory\<close> element and
  its resource items; an item with the given name, operations and type; the arguments of
  a run; an empty world in which every file may be opened, and one in which none may.
\<close>

definition ex_item :: "string \<Rightarrow> string \<Rightarrow> string \<Rightarrow> xml" where
  "ex_item nm ops ty = Element ''Item'' [(''ID'', ''1'')] None
     [leaf ''Name'' (Some nm), leaf ''Operations'' (Some ops),
      leaf ''MultipleInstances'' (Some ''Single''), leaf ''Mandatory'' (Some ''Mandatory''),
      leaf ''Type'' (Some ty), leaf ''RangeEnumeration'' None,
      leaf ''Units'' None, leaf ''Description'' None]"

definition ex_doc :: "xml list \<Rightarrow> xml list \<Rightarrow> xml" where
  "ex_doc mandatory_elem items = Element ''LWM2M'' [] None
     [Element ''Object'' [(''ObjectType'', ''MODefinition'')] None
        ([leaf ''Name'' (Some ''T''), leaf ''Description1'' None, leaf ''ObjectID'' (Some ''9999''),
          leaf ''ObjectURN'' None, leaf ''ObjectVersion'' None,
          leaf ''MultipleInstances'' (Some ''Single'')]
         @ mandatory_elem @ [Element ''Resources'' [] None items])]"

definition ex_world :: world where
  "ex_world = \<lparr> files = Map.empty, stdout = [], open_error = (\<lambda>path. None) \<rparr>"

definition refusing_world :: world where
  "refusing_world = \<lparr> files = Map.empty, stdout = [], open_error = (\<lambda>path. Some OSError) \<rparr>"

definition ex_argv :: "string list" where
  "ex_argv = [''gen.py'', ''T.xml'']"

section \<open>Supported types and renderable resources\<close>

text \<open>
  The seven spellings that the two chains on \<^verbatim>\<open>res.type\<close> know, and the resources for which
  every generator runs to its end: the name is present, and the resource is an execute field
  or has a supported type, with both Integer attributes set when the type is Integer.
\<close>

definition supported_types :: "string set" where
  "supported_types = {''String'', ''Integer'', ''Objlnk'', ''Float'', ''Opaque'', ''Time'', ''Boolean''}"

definition renderable :: "resource \<Rightarrow> bool" where
  "renderable r \<longleftrightarrow>
     r_name r \<noteq> None \<and>
     (is_exec r = Inr True \<or>
      (is_exec r = Inr False \<and> r_type r \<in> Some ` supported_types \<and>
       (r_type r = Some ''Integer'' \<longrightarrow> signed r \<noteq> None \<and> byte_size r \<noteq> None)))"

text \<open>
  The resource and the object that the constructors build from such an item and document,
  a parser that returns a given document, and the documents used below: one data field and
  one execute field of the unknown type \<^verbatim>\<open>Corge\<close>, and fields typed \<^verbatim>\<open>integer\<close> in lower case.
\<close>

definition ex_resource :: "string \<Rightarrow> string \<Rightarrow> string \<Rightarrow> resource" where
  "ex_resource nm ops ty = \<lparr> r_id = 1, r_name = Some nm, operations = Some ops,
     r_singleton = True, r_mandatory = True, r_type = Some ty,
     r_description = None, signed = None, byte_size = None \<rparr>"

definition ex_built :: "resource list \<Rightarrow> object" where
  "ex_built rs = \<lparr> o_name = Some ''T'', desc1 = None, o_id = 9999, objurn = None,
     version = None, o_singleton = True, o_mandatory = True, resources = rs \<rparr>"

definition ex_mandatory :: "xml list" where
  "ex_mandatory = [leaf ''Mandatory'' (Some ''Mandatory'')]"

definition ex_parse :: "xml \<Rightarrow> string \<Rightarrow> py_error + xml" where
  "ex_parse doc path = Inr doc"

definition corge_doc :: xml where
  "corge_doc = ex_doc ex_mandatory [ex_item ''A'' ''RW'' ''Corge'']"

definition corge_object :: object where
  "corge_object = ex_built [ex_resource ''A'' ''RW'' ''Corge'']"

definition exec_corge_doc :: xml where
  "exec_corge_doc = ex_doc ex_mandatory [ex_item ''A'' ''e'' ''Corge'']"

definition exec_corge_object :: object where
  "exec_corge_object = ex_built [ex_resource ''A'' ''e'' ''Corge'']"

definition exec_integer_doc :: xml where
  "exec_integer_doc = ex_doc ex_mandatory [ex_item ''A'' ''e'' ''integer'']"

definition integer_lower_object :: object where
  "integer_lower_object = ex_built [ex_resource ''A'' ''RW'' ''integer'']"

section \<open>Sequencing of results and fragments\<close>

lemma bind_r_Inr_iff: "bind_r m f = Inr y \<longleftrightarrow> (\<exists>x. m = Inr x \<and> f x = Inr y)"
  by (cases m) (simp_all add: bind_r_def)

lemma bind_r_Inr [simp]: "bind_r (Inr x) f = f x"
  by (simp add: bind_r_def)

lemma bind_r_Inl [simp]: "bind_r (Inl e) f = Inl e"
  by (simp add: bind_r_def)

lemma g_yield_simps [simp]: "fst (g_yield s) = [s]" "snd (g_yield s) = None"
  by (simp_all add: g_yield_def)

lemma g_raise_simps [simp]: "fst (g_raise e) = []" "snd (g_raise e) = Some e"
  by (simp_all add: g_raise_def)

lemma snd_g_then: "snd (g_then g h) = (case snd g of Some e \<Rightarrow> Some e | None \<Rightarrow> snd h)"
  by (simp add: g_then_def split: option.splits)

lemma fst_g_then: "fst (g_then g h) = (case snd g of Some e \<Rightarrow> fst g | None \<Rightarrow> fst g @ fst h)"
  by (simp add: g_then_def split: option.splits)

lemma snd_g_then_None [simp]: "snd (g_then g h) = None \<longleftrightarrow> snd g = None \<and> snd h = None"
  by (simp add: snd_g_then split: option.splits)

lemma fst_g_then_ok: "snd g = None \<Longrightarrow> fst (g_then g h) = fst g @ fst h"
  by (simp add: fst_g_then)

lemma g_then_error: "snd g = Some e \<Longrightarrow> g_then g h = g"
  by (simp add: g_then_def)

lemma g_all_Nil_simps [simp]: "fst (g_all []) = []" "snd (g_all []) = None"
  by simp_all

lemma snd_g_all_None: "snd (g_all gs) = None \<longleftrightarrow> (\<forall>g \<in> set gs. snd g = None)"
  by (induction gs) auto

lemma fst_g_all_ok: "snd (g_all gs) = None \<Longrightarrow> fst (g_all gs) = concat (map fst gs)"
  by (induction gs) (auto simp: fst_g_then_ok)

lemma snd_g_for_None: "snd (g_for xs f) = None \<longleftrightarrow> (\<forall>x \<in> set xs. snd (f x) = None)"
  by (simp add: g_for_def snd_g_all_None)

lemma fst_g_for_ok: "snd (g_for xs f) = None \<Longrightarrow> fst (g_for xs f) = concat (map (\<lambda>x. fst (f x)) xs)"
  by (simp add: g_for_def fst_g_all_ok comp_def)

lemma g_bind_Inr [simp]: "g_bind (Inr x) f = f x"
  by (simp add: g_bind_def)

lemma g_bind_Inl [simp]: "g_bind (Inl e) f = g_raise e"
  by (simp add: g_bind_def)

lemma snd_g_bind_None: "snd (g_bind m f) = None \<longleftrightarrow> (\<exists>x. m = Inr x \<and> snd (f x) = None)"
  by (cases m) simp_all

lemma g_yield_r_Inr [simp]: "g_yield_r (Inr s) = g_yield s"
  by (simp add: g_yield_r_def)

lemma g_yield_r_Inl [simp]: "g_yield_r (Inl e) = g_raise e"
  by (simp add: g_yield_r_def)

lemma snd_g_yield_r_None: "snd (g_yield_r m) = None \<longleftrightarrow> (\<exists>s. m = Inr s)"
  by (cases m) simp_all


section \<open>The resource instance count\<close>

lemma count_loop_result:
  "count_loop rs n m = Inr (n', m') \<Longrightarrow>
     n' = n + length (filter (\<lambda>r. is_exec r = Inr True) rs) \<and>
     m' = m @ filter (\<lambda>r. is_exec r = Inr False \<and> \<not> r_singleton r) rs"
proof (induction rs arbitrary: n m)
  case Nil
  then show ?case by simp
next
  case (Cons r rs)
  from Cons.prems obtain ex where ex: "is_exec r = Inr ex"
    by (cases "is_exec r") simp_all
  show ?case
  proof (cases ex)
    case True
    with Cons.prems ex have "count_loop rs (n + 1) m = Inr (n', m')" by simp
    from Cons.IH [OF this] show ?thesis using ex True by simp
  next
    case False
    show ?thesis
    proof (cases "r_singleton r")
      case True
      with Cons.prems ex False have "count_loop rs n m = Inr (n', m')" by simp
      from Cons.IH [OF this] show ?thesis using ex False True by simp
    next
      case ns: False
      with Cons.prems ex False have "count_loop rs n (m @ [r]) = Inr (n', m')" by simp
      from Cons.IH [OF this] show ?thesis using ex False ns by simp
    qed
  qed
qed

lemma count_loop_obj:
  assumes "count_loop (resources obj) 0 [] = Inr (n, m)"
  shows "n = exec_count obj" and "m = multi_data_fields obj"
  using count_loop_result [OF assms] by (simp_all add: exec_count_def multi_data_fields_def)

lemma max_names_ok:
  "\<forall>r \<in> set rs. \<exists>s. f r = Inr s \<Longrightarrow> \<exists>names. map f rs = map Inr names"
proof (induction rs)
  case Nil
  then show ?case by simp
next
  case (Cons r rs)
  then obtain s names where "f r = Inr s" "map f rs = map Inr names" by auto
  then have "map f (r # rs) = map Inr (s # names)" by simp
  then show ?case by blast
qed

lemma concat_yield_names:
  "map f rs = map Inr names \<Longrightarrow>
   concat (map (\<lambda>r. fst (g_yield_r (bind_r (f r) (\<lambda>n. Inr (p @ n))))) rs) = map (\<lambda>n. p @ n) names"
proof (induction rs arbitrary: names)
  case Nil
  then show ?case by simp
next
  case (Cons r rs)
  then obtain s ss where "names = s # ss" "f r = Inr s" "map f rs = map Inr ss"
    by (cases names) auto
  with Cons.IH show ?case by simp
qed

lemma inst_count_define_ok:
  assumes ok: "snd (inst_count_define obj n m) = None"
  shows "\<exists>mx names. gen_max_id obj = Inr mx \<and> map (gen_res_max_name obj) m = map Inr names \<and>
     fst (inst_count_define obj n m) =
       (''#define RESOURCE_INSTANCE_COUNT ('' @ mx @ '' - '' @ str_int (int n) @ '' - ''
          @ str_int (int (length m)))
       # map (\<lambda>nm. '' '' @ [CHR 0x5C] @ ''\<newline>                                 + '' @ nm) names
       @ ['')\<newline>'']"
proof -
  let ?line = "\<lambda>res. g_yield_r (bind_r (gen_res_max_name obj res) (\<lambda>n.
                Inr ('' '' @ [CHR 0x5C] @ ''\<newline>                                 + '' @ n)))"
  from ok obtain mx where mx: "gen_max_id obj = Inr mx"
    by (cases "gen_max_id obj") (simp_all add: inst_count_define_def)
  have all: "\<forall>r \<in> set m. \<exists>s. gen_res_max_name obj r = Inr s"
  proof
    fix r assume r: "r \<in> set m"
    then have "m \<noteq> []" by auto
    with ok have "snd (g_for m ?line) = None"
      by (simp add: inst_count_define_def mx)
    with r have "snd (?line r) = None" by (simp add: snd_g_for_None)
    then show "\<exists>s. gen_res_max_name obj r = Inr s"
      by (cases "gen_res_max_name obj r") simp_all
  qed
  from max_names_ok [OF all] obtain names where names: "map (gen_res_max_name obj) m = map Inr names"
    by blast
  have mid: "fst (if length m > 0 then g_for m ?line else g_all []) =
      map (\<lambda>nm. '' '' @ [CHR 0x5C] @ ''\<newline>                                 + '' @ nm) names"
  proof (cases "m = []")
    case True
    with names show ?thesis by simp
  next
    case False
    have "snd (g_for m ?line) = None"
      using all by (auto simp: snd_g_for_None)
    then have "fst (g_for m ?line) = concat (map (\<lambda>r. fst (?line r)) m)"
      by (rule fst_g_for_ok)
    also have "\<dots> = map (\<lambda>nm. '' '' @ [CHR 0x5C] @ ''\<newline>                                 + '' @ nm) names"
      using concat_yield_names [OF names, of "'' '' @ [CHR 0x5C] @ ''\<newline>                                 + ''"]
      by simp
    finally show ?thesis using False by simp
  qed
  have "fst (inst_count_define obj n m) =
       (''#define RESOURCE_INSTANCE_COUNT ('' @ mx @ '' - '' @ str_int (int n) @ '' - ''
          @ str_int (int (length m)))
       # map (\<lambda>nm. '' '' @ [CHR 0x5C] @ ''\<newline>                                 + '' @ nm) names
       @ ['')\<newline>'']"
    using ok mid unfolding inst_count_define_def
    by (simp add: mx fst_g_then_ok del: append.simps list.map)
  with mx names show ?thesis by blast
qed


lemma length_inst_count_comment:
  assumes "snd (inst_count_comment obj n m) = None"
  shows "length (fst (inst_count_comment obj n m)) = 6 + length m"
proof -
  let ?line = "\<lambda>res. g_yield_r (bind_r (gen_res_max_name obj res) (\<lambda>n. Inr ('' * add '' @ n @ ''\<newline>'')))"
  from assms have f: "snd (g_for m ?line) = None"
    by (simp add: inst_count_comment_def)
  have one: "\<forall>r \<in> set m. length (fst (?line r)) = 1"
  proof
    fix r assume "r \<in> set m"
    with f have "snd (?line r) = None" by (simp add: snd_g_for_None)
    then show "length (fst (?line r)) = 1"
      by (cases "gen_res_max_name obj r") simp_all
  qed
  have "length (fst (g_for m ?line)) = length m"
    unfolding fst_g_for_ok [OF f] using one
    by (induction m) simp_all
  with assms f show ?thesis
    by (simp add: inst_count_comment_def fst_g_then_ok)
qed

lemma max_id_define_Inr:
  "gen_max_id obj = Inr mx \<Longrightarrow>
   max_id_define obj = ([''#define '' @ mx @ '' '' @ str_int (int (length (resources obj))) @ ''\<newline>''], None)"
  by (simp add: max_id_define_def g_yield_def)


text \<open>
  Claim C1.  When \<^verbatim>\<open>gen_res_inst_count\<close> runs to its end, the fragments after the comment
  spell \<^verbatim>\<open>#define RESOURCE_INSTANCE_COUNT (M - e - k + N1 + ... + Nk)\<close>: \<open>M\<close> is the
  maximum-id constant, which \<^verbatim>\<open>gen_res_defs\<close> defines as the number of fields, \<open>e\<close> the
  number of execute fields, \<open>k\<close> the number of fields that are neither execute fields nor
  singletons, and \<open>N1 ... Nk\<close> the maximum-instance constants of those fields in document
  order, each on a continuation line.  The two subtracted terms come before the added ones.
\<close>

theorem resource_instance_count_formula:
  assumes "gen_res_inst_count obj = (frags, None)"
  shows "\<exists>mx names.
     gen_max_id obj = Inr mx \<and>
     map (gen_res_max_name obj) (multi_data_fields obj) = map Inr names \<and>
     max_id_define obj =
       ([''#define '' @ mx @ '' '' @ str_int (int (length (resources obj))) @ ''\<newline>''], None) \<and>
     concat (drop (6 + length (multi_data_fields obj)) frags) =
       ''#define RESOURCE_INSTANCE_COUNT ('' @ mx
         @ '' - '' @ str_int (int (exec_count obj))
         @ '' - '' @ str_int (int (length (multi_data_fields obj)))
         @ concat (map (\<lambda>nm. '' '' @ [CHR 0x5C] @ ''\<newline>                                 + '' @ nm) names)
         @ '')\<newline>''"
proof -
  from assms obtain n m where loop: "count_loop (resources obj) 0 [] = Inr (n, m)"
    by (cases "count_loop (resources obj) 0 []") (auto simp: gen_res_inst_count_def g_raise_def)
  have n: "n = exec_count obj" and m: "m = multi_data_fields obj"
    using count_loop_obj [OF loop] by simp_all
  from assms loop have both: "g_then (inst_count_comment obj n m) (inst_count_define obj n m) = (frags, None)"
    by (simp add: gen_res_inst_count_def)
  then have "snd (g_then (inst_count_comment obj n m) (inst_count_define obj n m)) = None" by simp
  then have c: "snd (inst_count_comment obj n m) = None" and d: "snd (inst_count_define obj n m) = None"
    by simp_all
  from both have frags: "frags = fst (inst_count_comment obj n m) @ fst (inst_count_define obj n m)"
    using fst_g_then_ok [OF c, of "inst_count_define obj n m"] by simp
  from inst_count_define_ok [OF d] obtain mx names where
    mx: "gen_max_id obj = Inr mx" and
    names: "map (gen_res_max_name obj) m = map Inr names" and
    def: "fst (inst_count_define obj n m) =
       (''#define RESOURCE_INSTANCE_COUNT ('' @ mx @ '' - '' @ str_int (int n) @ '' - ''
          @ str_int (int (length m)))
       # map (\<lambda>nm. '' '' @ [CHR 0x5C] @ ''\<newline>                                 + '' @ nm) names
       @ ['')\<newline>'']"
    by blast
  have "drop (6 + length m) frags = fst (inst_count_define obj n m)"
    using length_inst_count_comment [OF c] by (simp add: frags)
  then have "concat (drop (6 + length m) frags) =
       ''#define RESOURCE_INSTANCE_COUNT ('' @ mx @ '' - '' @ str_int (int n) @ '' - ''
          @ str_int (int (length m))
          @ concat (map (\<lambda>nm. '' '' @ [CHR 0x5C] @ ''\<newline>                                 + '' @ nm) names)
          @ '')\<newline>''"
    by (simp add: def)
  with mx names max_id_define_Inr [OF mx] show ?thesis
    unfolding n m by blast
qed

lemma ex_max_id: "gen_max_id ex_object = Inr ''TEST_OBJECT_MAX_ID''" by code_simp
lemma ex_multi_length: "length (multi_data_fields ex_object) = 2" by code_simp
lemma ex_exec_count_str: "str_int (int (exec_count ex_object)) = ''1''" by code_simp
lemma ex_max_names: "map (gen_res_max_name ex_object) (multi_data_fields ex_object) =
      map Inr [''TEST_OBJECT_FIELD_A_MAX'', ''TEST_OBJECT_FIELD_C_MAX'']" by code_simp

lemma ex_inst_count_ok: "snd (gen_res_inst_count ex_object) = None" by code_simp

lemma str_int_2: "str_int 2 = ''2''" by code_simp

lemma ex_names_eq:
  assumes names: "map (gen_res_max_name ex_object) (multi_data_fields ex_object) = map Inr names"
  shows "names = [''TEST_OBJECT_FIELD_A_MAX'', ''TEST_OBJECT_FIELD_C_MAX'']"
proof -
  have "map projr (map Inr names :: (py_error + string) list) = names"
    by (simp add: comp_def)
  with names [unfolded ex_max_names, symmetric] show ?thesis by simp
qed

lemma ex_define_text:
  assumes c: "concat (drop (6 + length (multi_data_fields ex_object)) (fst (gen_res_inst_count ex_object))) =
       ''#define RESOURCE_INSTANCE_COUNT ('' @ mx
         @ '' - '' @ str_int (int (exec_count ex_object))
         @ '' - '' @ str_int (int (length (multi_data_fields ex_object)))
         @ concat (map (\<lambda>nm. '' '' @ [CHR 0x5C] @ ''\<newline>                                 + '' @ nm) names)
         @ '')\<newline>''"
   and mx: "mx = ''TEST_OBJECT_MAX_ID''"
   and names: "names = [''TEST_OBJECT_FIELD_A_MAX'', ''TEST_OBJECT_FIELD_C_MAX'']"
  shows "concat (drop 8 (fst (gen_res_inst_count ex_object))) =
     ''#define RESOURCE_INSTANCE_COUNT (TEST_OBJECT_MAX_ID - 1 - 2 '' @ [CHR 0x5C]
       @ ''\<newline>                                 + TEST_OBJECT_FIELD_A_MAX '' @ [CHR 0x5C]
       @ ''\<newline>                                 + TEST_OBJECT_FIELD_C_MAX)\<newline>''"
  using c unfolding ex_multi_length ex_exec_count_str mx names by (simp add: str_int_2)

theorem resource_instance_count_formula_witness:
  "snd (gen_res_inst_count ex_object) = None \<and>
   concat (drop 8 (fst (gen_res_inst_count ex_object))) =
     ''#define RESOURCE_INSTANCE_COUNT (TEST_OBJECT_MAX_ID - 1 - 2 '' @ [CHR 0x5C]
       @ ''\<newline>                                 + TEST_OBJECT_FIELD_A_MAX '' @ [CHR 0x5C]
       @ ''\<newline>                                 + TEST_OBJECT_FIELD_C_MAX)\<newline>''"
proof -
  have h: "gen_res_inst_count ex_object = (fst (gen_res_inst_count ex_object), None)"
    using ex_inst_count_ok by (simp add: prod_eq_iff)
  from resource_instance_count_formula [OF h]
  obtain mx where "\<exists>names. gen_max_id ex_object = Inr mx \<and>
     map (gen_res_max_name ex_object) (multi_data_fields ex_object) = map Inr names \<and>
     max_id_define ex_object =
       ([''#define '' @ mx @ '' '' @ str_int (int (length (resources ex_object))) @ ''\<newline>''], None) \<and>
     concat (drop (6 + length (multi_data_fields ex_object)) (fst (gen_res_inst_count ex_object))) =
       ''#define RESOURCE_INSTANCE_COUNT ('' @ mx
         @ '' - '' @ str_int (int (exec_count ex_object))
         @ '' - '' @ str_int (int (length (multi_data_fields ex_object)))
         @ concat (map (\<lambda>nm. '' '' @ [CHR 0x5C] @ ''\<newline>                                 + '' @ nm) names)
         @ '')\<newline>''" ..
  then obtain names where p: "gen_max_id ex_object = Inr mx \<and>
     map (gen_res_max_name ex_object) (multi_data_fields ex_object) = map Inr names \<and>
     max_id_define ex_object =
       ([''#define '' @ mx @ '' '' @ str_int (int (length (resources ex_object))) @ ''\<newline>''], None) \<and>
     concat (drop (6 + length (multi_data_fields ex_object)) (fst (gen_res_inst_count ex_object))) =
       ''#define RESOURCE_INSTANCE_COUNT ('' @ mx
         @ '' - '' @ str_int (int (exec_count ex_object))
         @ '' - '' @ str_int (int (length (multi_data_fields ex_object)))
         @ concat (map (\<lambda>nm. '' '' @ [CHR 0x5C] @ ''\<newline>                                 + '' @ nm) names)
         @ '')\<newline>''" ..
  have mx: "mx = ''TEST_OBJECT_MAX_ID''" using p [THEN conjunct1] ex_max_id by simp
  have names: "names = [''TEST_OBJECT_FIELD_A_MAX'', ''TEST_OBJECT_FIELD_C_MAX'']"
    using p [THEN conjunct2, THEN conjunct1] by (rule ex_names_eq)
  from ex_define_text [OF p [THEN conjunct2, THEN conjunct2, THEN conjunct2] mx names] ex_inst_count_ok
  show ?thesis by (rule_tac conjI)
qed

lemma length_res_id_defines:
  assumes "snd (g_for rs (res_id_define obj)) = None"
  shows "length (fst (g_for rs (res_id_define obj))) = length rs"
proof -
  have one: "\<forall>r \<in> set rs. length (fst (res_id_define obj r)) = 1"
  proof
    fix r assume "r \<in> set rs"
    with assms have "snd (res_id_define obj r) = None" by (simp add: snd_g_for_None)
    then show "length (fst (res_id_define obj r)) = 1"
      by (cases "gen_res_id_name obj r") (simp_all add: res_id_define_def)
  qed
  show ?thesis
    unfolding fst_g_for_ok [OF assms] using one by (induction rs) simp_all
qed


text \<open>
  Claim C7.  When \<^verbatim>\<open>gen_res_defs\<close> runs to its end, the fragment after the resource id
  definitions defines the maximum-id constant as the number of fields of the object,
  whatever the ids of the fields are.
\<close>

theorem max_id_is_field_count:
  assumes "gen_res_defs obj = (frags, None)"
  shows "\<exists>mx. gen_max_id obj = Inr mx \<and>
     3 + length (resources obj) < length frags \<and>
     frags ! (3 + length (resources obj)) =
       ''#define '' @ mx @ '' '' @ str_int (int (length (resources obj))) @ ''\<newline>''"
proof -
  from assms have ok: "snd (gen_res_defs obj) = None" by simp
  then have ids: "snd (g_for (resources obj) (res_id_define obj)) = None"
    and mxd: "snd (max_id_define obj) = None"
    by (simp_all add: gen_res_defs_def)
  from mxd obtain mx where mx: "gen_max_id obj = Inr mx"
    by (cases "gen_max_id obj") (simp_all add: max_id_define_def)
  from ok obtain d where d: "gen_obj_id_def obj = Inr d"
    by (cases "gen_obj_id_def obj") (simp_all add: gen_res_defs_def)
  define rest where "rest = g_all [g_yield ''\<newline>'', instance_count_define obj,
      g_for (resources obj) (res_max_define obj)]"
  have rest_ok: "snd rest = None" using ok by (simp add: gen_res_defs_def rest_def)
  have "fst (gen_res_defs obj) =
      [''// FIXME: This should probably be defined elsewhere\<newline>'',
       ''#define '' @ d @ '' '' @ str_int (o_id obj) @ ''\<newline>\<newline>'',
       ''/* '' @ str_opt (o_name obj) @ '' resource IDs */\<newline>'']
      @ fst (g_for (resources obj) (res_id_define obj))
      @ [''#define '' @ mx @ '' '' @ str_int (int (length (resources obj))) @ ''\<newline>'']
      @ fst rest"
    using ok ids rest_ok
    by (simp add: gen_res_defs_def rest_def d fst_g_then_ok max_id_define_Inr [OF mx]
          del: append.simps)
  with assms have "frags =
      ([''// FIXME: This should probably be defined elsewhere\<newline>'',
       ''#define '' @ d @ '' '' @ str_int (o_id obj) @ ''\<newline>\<newline>'',
       ''/* '' @ str_opt (o_name obj) @ '' resource IDs */\<newline>'']
      @ fst (g_for (resources obj) (res_id_define obj)))
      @ (''#define '' @ mx @ '' '' @ str_int (int (length (resources obj))) @ ''\<newline>'')
      # fst rest"
    by simp
  moreover have "length ([''// FIXME: This should probably be defined elsewhere\<newline>'',
       ''#define '' @ d @ '' '' @ str_int (o_id obj) @ ''\<newline>\<newline>'',
       ''/* '' @ str_opt (o_name obj) @ '' resource IDs */\<newline>'']
      @ fst (g_for (resources obj) (res_id_define obj))) = 3 + length (resources obj)"
    using length_res_id_defines [OF ids] by simp
  ultimately have "frags ! (3 + length (resources obj)) =
       ''#define '' @ mx @ '' '' @ str_int (int (length (resources obj))) @ ''\<newline>''"
     and "3 + length (resources obj) < length frags"
    by (metis nth_append_length, simp)
  with mx show ?thesis by blast
qed


lemma def_format_Some: "def_format (Some s) = Inr (replace_char CHR '' '' CHR ''_'' (upper s))"
  by (simp add: def_format_def)

lemma name_format_Some: "name_format (Some s) = Inr (replace_char CHR '' '' CHR ''_'' (lower s))"
  by (simp add: name_format_def)

lemma gen_res_id_name_ok:
  "o_name obj = Some n \<Longrightarrow> r_name r = Some m \<Longrightarrow> \<exists>s. gen_res_id_name obj r = Inr s"
  by (simp add: gen_res_id_name_def gen_res_def_name_def def_format_Some)

lemma gen_res_max_name_ok:
  "o_name obj = Some n \<Longrightarrow> r_name r = Some m \<Longrightarrow> \<exists>s. gen_res_max_name obj r = Inr s"
  by (simp add: gen_res_max_name_def gen_res_def_name_def def_format_Some)

lemma res_id_define_ok:
  assumes "o_name obj = Some n" "r_name r = Some m"
  shows "snd (res_id_define obj r) = None"
proof -
  from gen_res_id_name_ok [OF assms] obtain s where "gen_res_id_name obj r = Inr s" ..
  then show ?thesis by (simp add: res_id_define_def)
qed

lemma res_max_define_ok:
  assumes "o_name obj = Some n" "r_name r = Some m"
  shows "snd (res_max_define obj r) = None"
proof -
  from gen_res_max_name_ok [OF assms] obtain s where "gen_res_max_name obj r = Inr s" ..
  then show ?thesis by (simp add: res_max_define_def)
qed

lemma instance_count_define_ok:
  "o_name obj = Some n \<Longrightarrow> snd (instance_count_define obj) = None"
  by (simp add: instance_count_define_def def_format_Some)

lemma gen_res_defs_ok:
  assumes n: "o_name obj = Some n" and rs: "\<forall>r \<in> set (resources obj). r_name r \<noteq> None"
  shows "snd (gen_res_defs obj) = None"
proof -
  have a: "snd (g_for (resources obj) (res_id_define obj)) = None"
    using rs res_id_define_ok [OF n] by (auto simp: snd_g_for_None)
  have b: "snd (g_for (resources obj) (res_max_define obj)) = None"
    using rs res_max_define_ok [OF n] by (auto simp: snd_g_for_None)
  have c: "snd (max_id_define obj) = None"
    by (simp add: max_id_define_def gen_max_id_def def_format_Some n)
  have d: "snd (instance_count_define obj) = None"
    using n by (rule instance_count_define_ok)
  show ?thesis
    using a b c d by (simp add: gen_res_defs_def gen_obj_id_def_def def_format_Some n)
qed

lemma ex_res_defs_ok: "snd (gen_res_defs ex_object) = None"
  by (rule gen_res_defs_ok [where n = "''Test Object''"])
     (simp_all add: ex_object_def ex_field_a_def ex_field_b_def ex_field_c_def)

lemma str_int_3: "str_int 3 = ''3''"
  by code_simp

lemma ex_field_count: "length (resources ex_object) = 3" and ex_field_ids: "map r_id (resources ex_object) = [5, 17, 40]"
  by code_simp+

theorem max_id_is_field_count_witness:
  "snd (gen_res_defs ex_object) = None \<and>
   fst (gen_res_defs ex_object) ! 6 = ''#define TEST_OBJECT_MAX_ID 3\<newline>'' \<and>
   map r_id (resources ex_object) = [5, 17, 40]"
proof -
  have h: "gen_res_defs ex_object = (fst (gen_res_defs ex_object), None)"
    using ex_res_defs_ok by (simp add: prod_eq_iff)
  from max_id_is_field_count [OF h]
  obtain mx where p: "gen_max_id ex_object = Inr mx \<and>
     3 + length (resources ex_object) < length (fst (gen_res_defs ex_object)) \<and>
     fst (gen_res_defs ex_object) ! (3 + length (resources ex_object)) =
       ''#define '' @ mx @ '' '' @ str_int (int (length (resources ex_object))) @ ''\<newline>''" ..
  have mx: "mx = ''TEST_OBJECT_MAX_ID''" using p [THEN conjunct1] ex_max_id by simp
  have "fst (gen_res_defs ex_object) ! 6 = ''#define TEST_OBJECT_MAX_ID 3\<newline>''"
    using p [THEN conjunct2, THEN conjunct2] unfolding ex_field_count mx by (simp add: str_int_3)
  with ex_res_defs_ok ex_field_ids show ?thesis by simp
qed

section \<open>Integer attributes\<close>

lemma attrs_step:
  assumes "(if ty = Some ''Integer''
             then bind_r (find_text res_node ''RangeEnumeration'') (\<lambda>range_str.
                  bind_r (integer_attrs lg range_str) (\<lambda>(sg, bs). Inr (Some sg, Some bs)))
             else Inr (None, None)) = Inr (sg, bs)"
  shows "(ty = Some ''Integer'' \<longrightarrow>
           (\<exists>range_str s b. find_text res_node ''RangeEnumeration'' = Inr range_str \<and>
             integer_attrs lg range_str = Inr (s, b) \<and> sg = Some s \<and> bs = Some b)) \<and>
         (ty \<noteq> Some ''Integer'' \<longrightarrow> sg = None \<and> bs = None)"
proof (cases "ty = Some ''Integer''")
  case True
  with assms obtain range_str p where a: "find_text res_node ''RangeEnumeration'' = Inr range_str"
    and b: "integer_attrs lg range_str = Inr p" and c: "(case p of (s, b) \<Rightarrow> Inr (Some s, Some b)) = (Inr (sg, bs) :: py_error + bool option \<times> int option)"
    by (auto simp: bind_r_Inr_iff)
  obtain s b' where p: "p = (s, b')" by (cases p)
  with c have "sg = Some s" "bs = Some b'" by simp_all
  with a b p True show ?thesis by auto
next
  case False
  with assms show ?thesis by simp
qed

lemma check_step:
  assumes "bind_r (is_exec self) (\<lambda>ex.
            if \<not> ex
            then (case ty of
                    None \<Rightarrow> Inl TypeError
                  | Some t \<Rightarrow> if length t > 0 then Inr self else Inl AssertionError)
            else Inr self) = Inr res"
  shows "res = self \<and> (\<exists>ex. is_exec self = Inr ex \<and> (\<not> ex \<longrightarrow> (\<exists>t. ty = Some t \<and> t \<noteq> [])))"
proof -
  from assms obtain ex where ex: "is_exec self = Inr ex"
    and r: "(if \<not> ex
            then (case ty of
                    None \<Rightarrow> Inl TypeError
                  | Some t \<Rightarrow> if length t > 0 then Inr self else Inl AssertionError)
            else Inr self) = Inr res"
    by (auto simp: bind_r_Inr_iff)
  show ?thesis
  proof (cases ex)
    case True
    with r ex show ?thesis by auto
  next
    case False
    with r ex show ?thesis by (cases ty) (auto split: if_splits)
  qed
qed

lemma LWM2MResource_Inr:
  assumes "LWM2MResource lg res_node = Inr res"
  shows "find_text res_node ''Type'' = Inr (r_type res)"
    and "find_text res_node ''Name'' = Inr (r_name res)"
    and "find_text res_node ''Operations'' = Inr (operations res)"
    and "r_type res = Some ''Integer'' \<longrightarrow>
           (\<exists>range_str sg bs. find_text res_node ''RangeEnumeration'' = Inr range_str \<and>
             integer_attrs lg range_str = Inr (sg, bs) \<and> signed res = Some sg \<and> byte_size res = Some bs)"
    and "r_type res \<noteq> Some ''Integer'' \<longrightarrow> signed res = None \<and> byte_size res = None"
    and "\<exists>ex. is_exec res = Inr ex \<and> (\<not> ex \<longrightarrow> (\<exists>t. r_type res = Some t \<and> t \<noteq> []))"
proof -
  from assms [unfolded LWM2MResource_def bind_r_Inr_iff]
  obtain i nm ops mi ma ty de p where
    nm: "find_text res_node ''Name'' = Inr nm" and
    ops: "find_text res_node ''Operations'' = Inr ops" and
    ty: "find_text res_node ''Type'' = Inr ty" and
    at: "(if ty = Some ''Integer''
          then bind_r (find_text res_node ''RangeEnumeration'') (\<lambda>range_str.
               bind_r (integer_attrs lg range_str) (\<lambda>(sg, bs). Inr (Some sg, Some bs)))
          else Inr (None, None)) = Inr p" and
    rest: "(case p of (sg, bs) \<Rightarrow>
       let self = \<lparr> r_id = i, r_name = nm, operations = ops,
                    r_singleton = (mi = Some ''Single''),
                    r_mandatory = (ma = Some ''Mandatory''),
                    r_type = ty, r_description = de,
                    signed = sg, byte_size = bs \<rparr>
       in bind_r (is_exec self) (\<lambda>ex.
            if \<not> ex
            then (case ty of
                    None \<Rightarrow> Inl TypeError
                  | Some t \<Rightarrow> if length t > 0 then Inr self else Inl AssertionError)
            else Inr self)) = Inr res"
    apply (elim exE conjE)
    apply (rule that)
    apply assumption+
    done
  obtain sg bs where p: "p = (sg, bs)" by (cases p)
  define self where "self = \<lparr> r_id = i, r_name = nm, operations = ops,
                    r_singleton = (mi = Some ''Single''),
                    r_mandatory = (ma = Some ''Mandatory''),
                    r_type = ty, r_description = de,
                    signed = sg, byte_size = bs \<rparr>"
  from rest have "bind_r (is_exec self) (\<lambda>ex.
            if \<not> ex
            then (case ty of
                    None \<Rightarrow> Inl TypeError
                  | Some t \<Rightarrow> if length t > 0 then Inr self else Inl AssertionError)
            else Inr self) = Inr res"
    unfolding p self_def by (simp only: prod.case Let_def)
  from check_step [OF this] have res: "res = self"
    and ex: "\<exists>ex. is_exec self = Inr ex \<and> (\<not> ex \<longrightarrow> (\<exists>t. ty = Some t \<and> t \<noteq> []))"
    by simp_all
  have f: "r_type res = ty" "r_name res = nm" "operations res = ops"
    "signed res = sg" "byte_size res = bs"
    by (simp_all add: res self_def)
  show "find_text res_node ''Type'' = Inr (r_type res)" using ty f by simp
  show "find_text res_node ''Name'' = Inr (r_name res)" using nm f by simp
  show "find_text res_node ''Operations'' = Inr (operations res)" using ops f by simp
  from attrs_step [OF at [unfolded p]]
  show "r_type res = Some ''Integer'' \<longrightarrow>
           (\<exists>range_str sg bs. find_text res_node ''RangeEnumeration'' = Inr range_str \<and>
             integer_attrs lg range_str = Inr (sg, bs) \<and> signed res = Some sg \<and> byte_size res = Some bs)"
    and "r_type res \<noteq> Some ''Integer'' \<longrightarrow> signed res = None \<and> byte_size res = None"
    unfolding f by simp_all
  show "\<exists>ex. is_exec res = Inr ex \<and> (\<not> ex \<longrightarrow> (\<exists>t. r_type res = Some t \<and> t \<noteq> []))"
    using ex unfolding f res [symmetric] .
qed

text \<open>
  Claim C4, as the code has it.  \<^verbatim>\<open>LWM2MResource.__init__\<close> reads the range with
  \<^verbatim>\<open>res_node.find("./RangeEnumeration").text\<close>.  When the element is there and has no text,
  the text is \<^verbatim>\<open>None\<close> and an Integer resource gets \<^verbatim>\<open>signed = True\<close> and
  \<^verbatim>\<open>byte_size = 32\<close>.  When an item of type Integer has no such element, \<^verbatim>\<open>find\<close> returns
  \<^verbatim>\<open>None\<close> and the constructor raises: no resource is built, and the exception is the
  \<^verbatim>\<open>AttributeError\<close> of \<^verbatim>\<open>None.text\<close> when everything read before it was there.
\<close>

theorem integer_default_attrs:
  "(\<forall>res. LWM2MResource lg res_node = Inr res \<longrightarrow> r_type res = Some ''Integer'' \<longrightarrow>
      find_text res_node ''RangeEnumeration'' = Inr None \<longrightarrow>
      signed res = Some True \<and> byte_size res = Some 32) \<and>
   (find_text res_node ''Type'' = Inr (Some ''Integer'') \<longrightarrow>
    et_find res_node ''RangeEnumeration'' = None \<longrightarrow>
      (\<exists>e. LWM2MResource lg res_node = Inl e) \<and>
      (\<forall>i nm ops mi ma de.
         py_int (et_get res_node ''ID'') = Inr i \<longrightarrow>
         find_text res_node ''Name'' = Inr nm \<longrightarrow>
         find_text res_node ''Operations'' = Inr ops \<longrightarrow>
         find_text res_node ''MultipleInstances'' = Inr mi \<longrightarrow>
         find_text res_node ''Mandatory'' = Inr ma \<longrightarrow>
         find_text res_node ''Description'' = Inr de \<longrightarrow>
         LWM2MResource lg res_node = Inl AttributeError))"
proof (intro conjI allI impI)
  fix res
  assume b: "LWM2MResource lg res_node = Inr res" and t: "r_type res = Some ''Integer''"
    and n: "find_text res_node ''RangeEnumeration'' = Inr None"
  from LWM2MResource_Inr(4) [OF b] t
  obtain range_str sg bs where
    "find_text res_node ''RangeEnumeration'' = Inr range_str"
    "integer_attrs lg range_str = Inr (sg, bs)" "signed res = Some sg" "byte_size res = Some bs"
    by blast
  with n have "signed res = Some True \<and> byte_size res = Some 32"
    by (simp add: integer_attrs_def)
  then show "signed res = Some True" and "byte_size res = Some 32" by simp_all
next
  assume t: "find_text res_node ''Type'' = Inr (Some ''Integer'')"
    and n: "et_find res_node ''RangeEnumeration'' = None"
  from n have r: "find_text res_node ''RangeEnumeration'' = Inl AttributeError"
    by (simp add: find_text_def)
  show "\<exists>e. LWM2MResource lg res_node = Inl e"
  proof (cases "LWM2MResource lg res_node")
    case (Inl e)
    then show ?thesis ..
  next
    case (Inr res)
    from LWM2MResource_Inr(1) [OF Inr] t have "r_type res = Some ''Integer''" by simp
    with LWM2MResource_Inr(4) [OF Inr]
    obtain range_str where "find_text res_node ''RangeEnumeration'' = Inr range_str" by blast
    with r show ?thesis by simp
  qed
  fix i nm ops mi ma de
  assume "py_int (et_get res_node ''ID'') = Inr i"
    "find_text res_node ''Name'' = Inr nm"
    "find_text res_node ''Operations'' = Inr ops"
    "find_text res_node ''MultipleInstances'' = Inr mi"
    "find_text res_node ''Mandatory'' = Inr ma"
    "find_text res_node ''Description'' = Inr de"
  with t r show "LWM2MResource lg res_node = Inl AttributeError"
    by (simp add: LWM2MResource_def)
qed

lemma int_of_str_1: "int_of_str ''1'' = Inr 1"
  by code_simp

lemma integer_item_parts:
  "py_int (et_get (integer_item rt) ''ID'') = Inr 1"
  "find_text (integer_item rt) ''Name'' = Inr (Some ''Level'')"
  "find_text (integer_item rt) ''Operations'' = Inr (Some ''RW'')"
  "find_text (integer_item rt) ''MultipleInstances'' = Inr (Some ''Single'')"
  "find_text (integer_item rt) ''Mandatory'' = Inr (Some ''Mandatory'')"
  "find_text (integer_item rt) ''Type'' = Inr (Some ''Integer'')"
  "find_text (integer_item rt) ''Description'' = Inr None"
  "find_text (integer_item rt) ''RangeEnumeration'' = Inr rt"
  by (simp_all add: integer_item_def leaf_def et_get_def py_int_def int_of_str_1
        find_text_def et_find_def)

lemma integer_item_no_range_parts:
  "py_int (et_get integer_item_no_range ''ID'') = Inr 1"
  "find_text integer_item_no_range ''Name'' = Inr (Some ''Level'')"
  "find_text integer_item_no_range ''Operations'' = Inr (Some ''RW'')"
  "find_text integer_item_no_range ''MultipleInstances'' = Inr (Some ''Single'')"
  "find_text integer_item_no_range ''Mandatory'' = Inr (Some ''Mandatory'')"
  "find_text integer_item_no_range ''Type'' = Inr (Some ''Integer'')"
  "find_text integer_item_no_range ''Description'' = Inr None"
  "et_find integer_item_no_range ''RangeEnumeration'' = None"
  by (simp_all add: integer_item_no_range_def leaf_def et_get_def py_int_def int_of_str_1
        find_text_def et_find_def)

lemma is_exec_RW: "operations r = Some ''RW'' \<Longrightarrow> is_exec r = Inr False"
  by (simp add: is_exec_def upper_def upper_char_def)

lemma integer_item_resource:
  "integer_attrs lg rt = Inr (sg, bs) \<Longrightarrow>
   LWM2MResource lg (integer_item rt) = Inr (integer_resource sg bs)"
  by (simp add: LWM2MResource_def integer_item_parts integer_resource_def is_exec_RW)

theorem integer_default_attrs_witness:
  "LWM2MResource exact_log2 (integer_item None) = Inr (integer_resource True 32) \<and>
   r_type (integer_resource True 32) = Some ''Integer'' \<and>
   find_text (integer_item None) ''RangeEnumeration'' = Inr None \<and>
   signed (integer_resource True 32) = Some True \<and>
   byte_size (integer_resource True 32) = Some 32 \<and>
   find_text integer_item_no_range ''Type'' = Inr (Some ''Integer'') \<and>
   et_find integer_item_no_range ''RangeEnumeration'' = None \<and>
   (\<exists>e. LWM2MResource exact_log2 integer_item_no_range = Inl e)"
proof -
  have a: "LWM2MResource exact_log2 (integer_item None) = Inr (integer_resource True 32)"
    by (rule integer_item_resource) (simp add: integer_attrs_def)
  have b: "r_type (integer_resource True 32) = Some ''Integer''"
    by (simp add: integer_resource_def)
  have c: "find_text (integer_item None) ''RangeEnumeration'' = Inr None"
    by (rule integer_item_parts)
  note t = integer_default_attrs [of exact_log2 "integer_item None", THEN conjunct1, THEN spec,
      THEN mp, THEN mp, THEN mp, OF a b c]
  note u = integer_default_attrs [of exact_log2 integer_item_no_range, THEN conjunct2, THEN mp,
      THEN mp, OF integer_item_no_range_parts(6) integer_item_no_range_parts(8), THEN conjunct1]
  from a b c t [THEN conjunct1] t [THEN conjunct2]
    integer_item_no_range_parts(6) integer_item_no_range_parts(8) u
  show ?thesis by (intro conjI)
qed

theorem integer_no_range_counterexample:
  "find_text integer_item_no_range ''Type'' = Inr (Some ''Integer'') \<and>
   et_find integer_item_no_range ''RangeEnumeration'' = None \<and>
   LWM2MResource exact_log2 integer_item_no_range = Inl AttributeError"
proof -
  have "find_text integer_item_no_range ''RangeEnumeration'' = Inl AttributeError"
    by (simp add: find_text_def integer_item_no_range_parts)
  then show ?thesis
    by (simp add: LWM2MResource_def integer_item_no_range_parts)
qed

section \<open>The width of an Integer field with a range\<close>

lemma rx_ex: "range_regex_match ''0..100000'' = Some (''0'', ''100000'')" by code_simp

lemma int_ex: "int_of_str ''0'' = Inr 0" "int_of_str ''100000'' = Inr 100000"
  by (simp_all add: int_of_str_def strip_def is_space_def is_digit_def)

lemma ceiling_bits_24:
  fixes x :: real
  assumes "16 < x" and "x \<le> 24"
  shows "\<lceil>x / 8\<rceil> * 8 = (24 :: int)"
proof -
  have "\<lceil>x / 8\<rceil> = 3"
    by (rule ceiling_unique) (use assms in simp_all)
  then show ?thesis by simp
qed

lemma attrs_ex:
  assumes "16 < lg 100000" and "lg 100000 \<le> 24"
  shows "integer_attrs lg (Some ''0..100000'') = Inr (False, 24)"
  by (simp add: integer_attrs_def rx_ex int_ex log2_byte_bits_def ceiling_bits_24 [OF assms])

lemma str_int_24: "str_int 24 = ''24''"
  by code_simp

lemma width_24_type: "data_struct_type (integer_resource False 24) = Inr (''uint24_t'', '''')"
  by (simp add: data_struct_type_def integer_resource_def str_int_24)

lemma width_24_member:
  "data_struct_member (integer_resource False 24) = ([[CHR 0x09] @ ''uint24_t level;\<newline>''], None)"
proof -
  have e: "is_exec (integer_resource False 24) = Inr False"
    by (rule is_exec_RW) (simp add: integer_resource_def)
  have n: "name_format (r_name (integer_resource False 24)) = Inr ''level''"
    by code_simp
  show ?thesis
    by (simp add: data_struct_member_def e width_24_type n g_yield_def)
qed

lemma width_24_tag: "field_type_tag (integer_resource False 24) = Inr ''U24''"
  by (simp add: field_type_tag_def integer_resource_def str_int_24)

text \<open>
  Claim C2, at the range \<^verbatim>\<open>0..100000\<close>.  The library logarithm of \<open>100000\<close> lies between 16
  and 24 (it is about 16.6), so \<^verbatim>\<open>int(math.ceil(math.log2(max_val) / 8.0) * 8)\<close> is 24: the
  constructor rounds the bit count up to whole bytes, not to one of 8, 16, 32 and 64.  The
  resource is built with \<^verbatim>\<open>byte_size = 24\<close>, the data structure gets the member
  \<^verbatim>\<open>uint24_t level;\<close> and the field table the tag \<^verbatim>\<open>U24\<close>, where the claim asks for 32.
\<close>

theorem integer_range_width_24:
  assumes "16 < lg 100000" and "lg 100000 \<le> 24"
  shows "LWM2MResource lg (integer_item (Some ''0..100000'')) = Inr (integer_resource False 24) \<and>
     signed (integer_resource False 24) = Some False \<and>
     byte_size (integer_resource False 24) = Some 24 \<and>
     data_struct_type (integer_resource False 24) = Inr (''uint24_t'', '''') \<and>
     data_struct_member (integer_resource False 24) =
       ([[CHR 0x09] @ ''uint24_t level;\<newline>''], None) \<and>
     field_type_tag (integer_resource False 24) = Inr ''U24''"
  using integer_item_resource [OF attrs_ex [where lg = lg, OF assms]] width_24_type width_24_member width_24_tag
  by (simp add: integer_resource_def)

lemma exact_log2_100000: "16 < exact_log2 100000" "exact_log2 100000 \<le> 24"
proof -
  have "real (16 :: nat) < log 2 (real (100000 :: nat))"
    by (rule less_log2_of_power) simp
  then show "16 < exact_log2 100000" by (simp add: exact_log2_def)
  have "log 2 (real (100000 :: nat)) \<le> real (24 :: nat)"
    by (rule log2_of_power_le) simp_all
  then show "exact_log2 100000 \<le> 24" by (simp add: exact_log2_def)
qed

theorem integer_range_width_24_witness:
  "16 < exact_log2 100000 \<and> exact_log2 100000 \<le> 24 \<and>
   LWM2MResource exact_log2 (integer_item (Some ''0..100000'')) = Inr (integer_resource False 24) \<and>
   data_struct_type (integer_resource False 24) = Inr (''uint24_t'', '''') \<and>
   field_type_tag (integer_resource False 24) = Inr ''U24''"
proof -
  note t = integer_range_width_24 [where lg = exact_log2, OF exact_log2_100000]
  from exact_log2_100000 t [THEN conjunct1]
    t [THEN conjunct2, THEN conjunct2, THEN conjunct2, THEN conjunct1]
    t [THEN conjunct2, THEN conjunct2, THEN conjunct2, THEN conjunct2, THEN conjunct2]
  show ?thesis by (intro conjI)
qed

section \<open>Execute fields and field descriptors\<close>

lemma upper_char_E: "upper_char c = CHR ''E'' \<longleftrightarrow> c = CHR ''E'' \<or> c = CHR ''e''"
proof
  assume a: "upper_char c = CHR ''E''"
  show "c = CHR ''E'' \<or> c = CHR ''e''"
  proof (cases "97 \<le> (of_char c :: nat) \<and> (of_char c :: nat) \<le> 122")
    case True
    with a have "char_of ((of_char c :: nat) - 32) = CHR ''E''"
      by (simp add: upper_char_def Let_def)
    then have "(of_char (char_of ((of_char c :: nat) - 32) :: char) :: nat) = of_char CHR ''E''"
      by simp
    then have "((of_char c :: nat) - 32) mod 256 = 69" by (simp add: of_char_of)
    moreover have "((of_char c :: nat) - 32) mod 256 = (of_char c :: nat) - 32"
      using True by (intro mod_less) linarith
    ultimately have "(of_char c :: nat) = 101" using True by linarith
    then have "(of_char c :: nat) = of_char CHR ''e''" by simp
    then have "c = CHR ''e''" by (simp only: of_char_eq_iff)
    then show ?thesis ..
  next
    case False
    with a show ?thesis by (auto simp: upper_char_def Let_def)
  qed
next
  have "(of_char (char_of (69 :: nat) :: char) :: nat) = of_char CHR ''E''"
    by (simp add: of_char_of)
  then have e: "char_of (69 :: nat) = CHR ''E''" by (simp only: of_char_eq_iff)
  assume "c = CHR ''E'' \<or> c = CHR ''e''"
  then show "upper_char c = CHR ''E''" by (auto simp: upper_char_def e)
qed

lemma upper_E: "upper s = ''E'' \<longleftrightarrow> s = ''E'' \<or> s = ''e''"
proof (cases s)
  case Nil
  then show ?thesis by (simp add: upper_def)
next
  case (Cons c cs)
  then show ?thesis by (cases cs) (auto simp: upper_def upper_char_E)
qed

lemma is_exec_True_iff:
  "is_exec res = Inr True \<longleftrightarrow> operations res = Some ''E'' \<or> operations res = Some ''e''"
  by (cases "operations res") (auto simp: is_exec_def upper_E)

lemma is_exec_False_ops: "is_exec res = Inr False \<Longrightarrow> \<exists>ops. operations res = Some ops"
  by (cases "operations res") (auto simp: is_exec_def)

lemma is_exec_cases:
  assumes "is_exec r = Inr ex"
  obtains "is_exec r = Inr True" | "is_exec r = Inr False"
  using assms by (cases ex) simp_all

text \<open>The members of the data structure.\<close>

lemma data_struct_member_exec: "is_exec r = Inr True \<Longrightarrow> data_struct_member r = ([], None)"
  by (simp add: data_struct_member_def)

lemma data_struct_member_data:
  assumes ne: "is_exec r = Inr False" and ok: "snd (data_struct_member r) = None"
  shows "\<exists>ty suffix n. data_struct_type r = Inr (ty, suffix) \<and> name_format (r_name r) = Inr n \<and>
     fst (data_struct_member r) = [[CHR 0x09] @ ty @ '' '' @ n @ suffix @ '';\<newline>'']"
proof -
  from ok ne obtain p where p: "data_struct_type r = Inr p"
    by (cases "data_struct_type r") (simp_all add: data_struct_member_def)
  obtain ty suffix where ps: "p = (ty, suffix)" by (cases p)
  from ok ne p ps obtain n where n: "name_format (r_name r) = Inr n"
    by (cases "name_format (r_name r)") (simp_all add: data_struct_member_def)
  have "fst (data_struct_member r) = [[CHR 0x09] @ ty @ '' '' @ n @ suffix @ '';\<newline>'']"
    by (simp add: data_struct_member_def ne p ps n)
  with p ps n show ?thesis by blast
qed

lemma data_struct_members:
  assumes "\<forall>r \<in> set rs. snd (data_struct_member r) = None"
  shows "list_all2 (\<lambda>r m. \<exists>ty suffix n. data_struct_type r = Inr (ty, suffix) \<and>
        name_format (r_name r) = Inr n \<and> m = [CHR 0x09] @ ty @ '' '' @ n @ suffix @ '';\<newline>'')
      (filter (\<lambda>r. is_exec r = Inr False) rs)
      (concat (map (\<lambda>r. fst (data_struct_member r)) rs))"
  using assms
proof (induction rs)
  case Nil
  then show ?case by simp
next
  case (Cons r rs)
  from Cons.prems have ok: "snd (data_struct_member r) = None" by simp
  then obtain ex where "is_exec r = Inr ex"
    by (cases "is_exec r") (simp_all add: data_struct_member_def)
  then show ?case
  proof (cases rule: is_exec_cases)
    case 1
    with Cons show ?thesis by (simp add: data_struct_member_exec)
  next
    case 2
    from data_struct_member_data [OF 2 ok] obtain ty suffix n where
      "data_struct_type r = Inr (ty, suffix)" "name_format (r_name r) = Inr n"
      "fst (data_struct_member r) = [[CHR 0x09] @ ty @ '' '' @ n @ suffix @ '';\<newline>'']"
      by blast
    with Cons 2 show ?thesis by simp
  qed
qed

lemma gen_data_struct_frags:
  assumes "gen_data_struct obj = (frags, None)"
  shows "\<exists>t v members.
     gen_data_struct_type obj = Inr t \<and> gen_data_struct_var_name obj = Inr v \<and>
     list_all2 (\<lambda>r m. \<exists>ty suffix n. data_struct_type r = Inr (ty, suffix) \<and>
        name_format (r_name r) = Inr n \<and> m = [CHR 0x09] @ ty @ '' '' @ n @ suffix @ '';\<newline>'')
      (data_fields obj) members \<and>
     frags = [t @ '' {\<newline>''] @ members @
       [''};\<newline>\<newline>'',
        ''static '' @ t @ '' '' @ v @ (if \<not> o_singleton obj then ''[MAX_INSTANCE_COUNT]'' else '''')
          @ '';\<newline>\<newline>'']"
proof -
  from assms have s: "snd (gen_data_struct obj) = None"
    and f: "frags = fst (gen_data_struct obj)" by simp_all
  from s obtain t where t: "gen_data_struct_type obj = Inr t"
    by (cases "gen_data_struct_type obj") (simp_all add: gen_data_struct_def)
  then obtain v where v: "gen_data_struct_var_name obj = Inr v"
    by (auto simp: gen_data_struct_type_def bind_r_Inr_iff)
  then obtain n where n: "name_format (o_name obj) = Inr n"
    by (auto simp: gen_data_struct_var_name_def bind_r_Inr_iff)
  from s have loop: "snd (g_for (resources obj) data_struct_member) = None"
    by (simp add: gen_data_struct_def)
  then have each: "\<forall>r \<in> set (resources obj). snd (data_struct_member r) = None"
    by (simp add: snd_g_for_None)
  define members where "members = concat (map (\<lambda>r. fst (data_struct_member r)) (resources obj))"
  have m: "fst (g_for (resources obj) data_struct_member) = members"
    unfolding members_def using loop by (rule fst_g_for_ok)
  have "frags = [t @ '' {\<newline>''] @ members @
       [''};\<newline>\<newline>'',
        ''static '' @ t @ '' '' @ v @ (if \<not> o_singleton obj then ''[MAX_INSTANCE_COUNT]'' else '''')
          @ '';\<newline>\<newline>'']"
    unfolding f gen_data_struct_def
    by (simp add: fst_g_then_ok loop t v n m Let_def)
  moreover have "list_all2 (\<lambda>r m. \<exists>ty suffix n. data_struct_type r = Inr (ty, suffix) \<and>
        name_format (r_name r) = Inr n \<and> m = [CHR 0x09] @ ty @ '' '' @ n @ suffix @ '';\<newline>'')
      (data_fields obj) members"
    unfolding members_def data_fields_def using each by (rule data_struct_members)
  ultimately show ?thesis using t v by blast
qed

text \<open>The callback stubs.\<close>

lemma exec_cb_stub_none:
  assumes "is_exec r = Inr ex" and "\<not> (ex \<and> r_mandatory r)"
  shows "exec_cb_stub r = ([], None)"
  using assms by (auto simp: exec_cb_stub_def)

lemma exec_cb_stub_some:
  assumes ex: "is_exec r = Inr True" and m: "r_mandatory r" and ok: "snd (exec_cb_stub r) = None"
  shows "\<exists>cb. gen_exec_cb_name r = Inr cb \<and>
     fst (exec_cb_stub r) =
       [''static int '' @ cb @ ''(uint16_t obj_inst_id)\<newline>'',
        ''{\<newline>'',
        [CHR 0x09] @ ''/* FIXME: Add exec callback implementation here */\<newline>'',
        [CHR 0x09] @ ''return 0;\<newline>'',
        ''}\<newline>\<newline>'']"
proof -
  from ok ex m obtain cb where cb: "gen_exec_cb_name r = Inr cb"
    by (cases "gen_exec_cb_name r") (simp_all add: exec_cb_stub_def)
  have "fst (exec_cb_stub r) =
       [''static int '' @ cb @ ''(uint16_t obj_inst_id)\<newline>'',
        ''{\<newline>'',
        [CHR 0x09] @ ''/* FIXME: Add exec callback implementation here */\<newline>'',
        [CHR 0x09] @ ''return 0;\<newline>'',
        ''}\<newline>\<newline>'']"
    by (simp add: exec_cb_stub_def ex m cb g_then_def g_yield_def)
  with cb show ?thesis by blast
qed

lemma exec_cb_stubs:
  assumes "\<forall>r \<in> set rs. snd (exec_cb_stub r) = None"
  shows "\<exists>cbs. map gen_exec_cb_name (filter (\<lambda>r. is_exec r = Inr True \<and> r_mandatory r) rs) = map Inr cbs \<and>
     concat (map (\<lambda>r. fst (exec_cb_stub r)) rs) =
       concat (map (\<lambda>cb.
         [''static int '' @ cb @ ''(uint16_t obj_inst_id)\<newline>'',
          ''{\<newline>'',
          [CHR 0x09] @ ''/* FIXME: Add exec callback implementation here */\<newline>'',
          [CHR 0x09] @ ''return 0;\<newline>'',
          ''}\<newline>\<newline>'']) cbs)"
  using assms
proof (induction rs)
  case Nil
  then show ?case by simp
next
  case (Cons r rs)
  let ?stub = "\<lambda>cb.
         [''static int '' @ cb @ ''(uint16_t obj_inst_id)\<newline>'',
          ''{\<newline>'',
          [CHR 0x09] @ ''/* FIXME: Add exec callback implementation here */\<newline>'',
          [CHR 0x09] @ ''return 0;\<newline>'',
          ''}\<newline>\<newline>'']"
  let ?keep = "\<lambda>r. is_exec r = Inr True \<and> r_mandatory r"
  from Cons obtain cbs where
    names: "map gen_exec_cb_name (filter ?keep rs) = map Inr cbs" and
    rest: "concat (map (\<lambda>r. fst (exec_cb_stub r)) rs) = concat (map ?stub cbs)"
    by auto
  from Cons.prems have ok: "snd (exec_cb_stub r) = None" by simp
  then obtain ex where ex: "is_exec r = Inr ex"
    by (cases "is_exec r") (simp_all add: exec_cb_stub_def)
  show ?case
  proof (cases "ex \<and> r_mandatory r")
    case True
    with ex have t: "is_exec r = Inr True" and m: "r_mandatory r" by simp_all
    from exec_cb_stub_some [OF t m ok] obtain cb where
      cb: "gen_exec_cb_name r = Inr cb" and f: "fst (exec_cb_stub r) = ?stub cb" by blast
    have "map gen_exec_cb_name (filter ?keep (r # rs)) = map Inr (cb # cbs)"
      using t m cb names by simp
    moreover have "concat (map (\<lambda>r. fst (exec_cb_stub r)) (r # rs)) = concat (map ?stub (cb # cbs))"
      using f rest by simp
    ultimately show ?thesis by blast
  next
    case False
    from exec_cb_stub_none [OF ex False] have e: "exec_cb_stub r = ([], None)" .
    from False ex have k: "\<not> ?keep r" by auto
    have "map gen_exec_cb_name (filter ?keep (r # rs)) = map Inr cbs"
      using k names by simp
    moreover have "concat (map (\<lambda>r. fst (exec_cb_stub r)) (r # rs)) = concat (map ?stub cbs)"
      using e rest by simp
    ultimately show ?thesis by blast
  qed
qed

lemma gen_exec_cbs_frags:
  assumes "gen_exec_cbs obj = (frags, None)"
  shows "\<exists>cbs. map gen_exec_cb_name (mandatory_exec_fields obj) = map Inr cbs \<and>
     frags = concat (map (\<lambda>cb.
         [''static int '' @ cb @ ''(uint16_t obj_inst_id)\<newline>'',
          ''{\<newline>'',
          [CHR 0x09] @ ''/* FIXME: Add exec callback implementation here */\<newline>'',
          [CHR 0x09] @ ''return 0;\<newline>'',
          ''}\<newline>\<newline>'']) cbs)"
proof -
  from assms have s: "snd (g_for (resources obj) exec_cb_stub) = None"
    and f: "frags = fst (g_for (resources obj) exec_cb_stub)"
    by (simp_all add: gen_exec_cbs_def)
  from s have each: "\<forall>r \<in> set (resources obj). snd (exec_cb_stub r) = None"
    by (simp add: snd_g_for_None)
  from exec_cb_stubs [OF each] show ?thesis
    unfolding f fst_g_for_ok [OF s] mandatory_exec_fields_def .
qed

text \<open>The field table.\<close>

lemma concat_nth_start:
  assumes "i < length xss" and "\<forall>j < i. length (xss ! j) = k" and "xss ! i \<noteq> []"
  shows "k * i < length (concat xss) \<and> concat xss ! (k * i) = hd (xss ! i)"
  using assms
proof (induction xss arbitrary: i)
  case Nil
  then show ?case by simp
next
  case (Cons xs xss)
  show ?case
  proof (cases i)
    case 0
    with Cons.prems show ?thesis by (simp add: nth_append hd_conv_nth)
  next
    case (Suc i')
    from Cons.prems(2) Suc have k: "length xs = k" by auto
    from Cons.prems Suc have a: "i' < length xss" and c: "xss ! i' \<noteq> []" by simp_all
    from Cons.prems(2) Suc have b: "\<forall>j < i'. length (xss ! j) = k" by auto
    from Cons.IH [OF a b c] have ih: "k * i' < length (concat xss)"
      "concat xss ! (k * i') = hd (xss ! i')" by simp_all
    have "concat (xs # xss) ! (k * i) = (xs @ concat xss) ! (length xs + k * i')"
      using Suc k by simp
    also have "\<dots> = concat xss ! (k * i')" by (rule nth_append_length_plus)
    finally show ?thesis using ih Suc k by simp
  qed
qed

lemma field_entry_frags:
  assumes "snd (field_entry obj (ix, res)) = None"
  shows "\<exists>f. gen_field obj res = Inr f \<and>
     fst (field_entry obj (ix, res)) =
       [[CHR 0x09] @ f] @ (if int ix < int (length (resources obj)) - 1 then ['',''] else [])
         @ [''\<newline>'']"
proof -
  from assms obtain f where f: "gen_field obj res = Inr f"
    by (cases "gen_field obj res") (simp_all add: field_entry_def)
  have "fst (field_entry obj (ix, res)) =
       [[CHR 0x09] @ f] @ (if int ix < int (length (resources obj)) - 1 then ['',''] else [])
         @ [''\<newline>'']"
    by (simp add: field_entry_def f fst_g_then_ok)
  with f show ?thesis by blast
qed

lemma gen_field_exec:
  assumes "is_exec res = Inr True" and "gen_field obj res = Inr f"
  shows "\<exists>idn. gen_res_id_name obj res = Inr idn \<and>
     f = ''OBJ_FIELD_EXECUTE'' @ (if r_mandatory res then [] else ''_OPT'') @ ''('' @ idn @ '')''"
proof -
  from assms obtain idn where idn: "gen_res_id_name obj res = Inr idn"
    by (cases "gen_res_id_name obj res") (simp_all add: gen_field_def Let_def)
  with assms show ?thesis by (auto simp: gen_field_def Let_def)
qed

lemma gen_fields_frags:
  assumes g: "gen_fields obj = (frags, None)" and i: "i < length (resources obj)"
  shows "\<exists>f. gen_field obj (resources obj ! i) = Inr f \<and> frags ! (2 + 3 * i) = [CHR 0x09] @ f"
proof -
  let ?es = "enumerate 0 (resources obj)"
  let ?xss = "map (\<lambda>p. fst (field_entry obj p)) ?es"
  from g have s: "snd (gen_fields obj) = None" and f: "frags = fst (gen_fields obj)" by simp_all
  from s obtain n where n: "name_format (o_name obj) = Inr n"
    by (cases "name_format (o_name obj)") (simp_all add: gen_fields_def Let_def)
  from s n have loop: "snd (g_for ?es (field_entry obj)) = None"
    by (simp add: gen_fields_def Let_def)
  from s n loop obtain m where m: "gen_max_id obj = Inr m"
    by (cases "gen_max_id obj") (simp_all add: gen_fields_def Let_def)
  have each: "\<forall>p \<in> set ?es. snd (field_entry obj p) = None"
    using loop by (simp add: snd_g_for_None)
  have es: "\<And>j. j < length (resources obj) \<Longrightarrow> ?es ! j = (j, resources obj ! j)"
    by (simp add: nth_enumerate_eq)
  have entry: "\<And>j. j < length (resources obj) \<Longrightarrow>
      \<exists>f. gen_field obj (resources obj ! j) = Inr f \<and>
        ?xss ! j = [[CHR 0x09] @ f] @ (if int j < int (length (resources obj)) - 1 then ['',''] else [])
           @ [''\<newline>'']"
  proof -
    fix j assume j: "j < length (resources obj)"
    then have "?es ! j \<in> set ?es" by simp
    with each have "snd (field_entry obj (?es ! j)) = None" by blast
    then have "snd (field_entry obj (j, resources obj ! j)) = None" by (simp only: es [OF j])
    from field_entry_frags [OF this] show "\<exists>f. gen_field obj (resources obj ! j) = Inr f \<and>
        ?xss ! j = [[CHR 0x09] @ f] @ (if int j < int (length (resources obj)) - 1 then ['',''] else [])
           @ [''\<newline>'']"
      using j by (simp add: es [OF j])
  qed
  from entry [OF i] obtain fi where fi: "gen_field obj (resources obj ! i) = Inr fi"
    and xi: "?xss ! i = [[CHR 0x09] @ fi] @ (if int i < int (length (resources obj)) - 1 then ['',''] else [])
           @ [''\<newline>'']" by blast
  have a: "i < length ?xss" using i by simp
  have b: "\<forall>j < i. length (?xss ! j) = 3"
  proof (intro allI impI)
    fix j assume ji: "j < i"
    with i have j: "j < length (resources obj)" by simp
    from entry [OF j] obtain fj where
      "?xss ! j = [[CHR 0x09] @ fj] @ (if int j < int (length (resources obj)) - 1 then ['',''] else [])
           @ [''\<newline>'']" by blast
    moreover from ji i have "int j < int (length (resources obj)) - 1" by simp
    ultimately show "length (?xss ! j) = 3" by simp
  qed
  have c: "?xss ! i \<noteq> []" by (simp only: xi) simp
  from concat_nth_start [OF a b c]
  have lt: "3 * i < length (concat ?xss)" and at: "concat ?xss ! (3 * i) = hd (?xss ! i)"
    by simp_all
  have hd: "hd (?xss ! i) = [CHR 0x09] @ fi" by (simp only: xi) simp
  have tbl: "fst (g_for ?es (field_entry obj)) = concat ?xss"
    using loop by (rule fst_g_for_ok)
  have "\<exists>h1 h2 rest. frags = h1 # h2 # (concat ?xss @ rest)"
    unfolding f gen_fields_def
    by (simp add: fst_g_then_ok loop n m tbl Let_def)
  then obtain h1 h2 rest where fr: "frags = h1 # h2 # (concat ?xss @ rest)" by blast
  have "frags ! (2 + 3 * i) = (concat ?xss @ rest) ! (3 * i)"
    by (simp add: fr)
  also have "\<dots> = concat ?xss ! (3 * i)" using lt by (simp add: nth_append)
  also have "\<dots> = [CHR 0x09] @ fi" by (simp only: at hd)
  finally show ?thesis using fi by blast
qed

text \<open>
  Claim C5.  A field is an execute field exactly when its operations string is \<^verbatim>\<open>E\<close> in
  either case.  Whenever the generators run to their end:

  \<^item> \<^verbatim>\<open>gen_data_struct\<close> yields the opening line, one member line for each field that is not
    an execute field, in document order, and the two closing fragments, so no execute field
    has a member;

  \<^item> in what \<^verbatim>\<open>gen_fields\<close> yields, the entry of the field at position \<open>i\<close> is fragment
    \<open>2 + 3 * i\<close>, and for an execute field it is \<^verbatim>\<open>OBJ_FIELD_EXECUTE(id)\<close>, or
    \<^verbatim>\<open>OBJ_FIELD_EXECUTE_OPT(id)\<close> when the field is not mandatory;

  \<^item> \<^verbatim>\<open>gen_exec_cbs\<close> yields the five fragments of a callback stub for each mandatory
    execute field, in document order, and nothing else.
\<close>

theorem execute_only_fields:
  "(is_exec res = Inr True \<longleftrightarrow> operations res = Some ''E'' \<or> operations res = Some ''e'') \<and>
   (\<forall>frags. gen_data_struct obj = (frags, None) \<longrightarrow>
      (\<exists>t v members.
         gen_data_struct_type obj = Inr t \<and> gen_data_struct_var_name obj = Inr v \<and>
         list_all2 (\<lambda>r m. \<exists>ty suffix n. data_struct_type r = Inr (ty, suffix) \<and>
              name_format (r_name r) = Inr n \<and>
              m = [CHR 0x09] @ ty @ '' '' @ n @ suffix @ '';\<newline>'')
           (data_fields obj) members \<and>
         frags = [t @ '' {\<newline>''] @ members @
           [''};\<newline>\<newline>'',
            ''static '' @ t @ '' '' @ v
              @ (if \<not> o_singleton obj then ''[MAX_INSTANCE_COUNT]'' else '''') @ '';\<newline>\<newline>''])) \<and>
   (\<forall>frags i. gen_fields obj = (frags, None) \<longrightarrow> i < length (resources obj) \<longrightarrow>
      is_exec (resources obj ! i) = Inr True \<longrightarrow>
      (\<exists>idn. gen_res_id_name obj (resources obj ! i) = Inr idn \<and>
         frags ! (2 + 3 * i) =
           [CHR 0x09] @ ''OBJ_FIELD_EXECUTE''
             @ (if r_mandatory (resources obj ! i) then [] else ''_OPT'') @ ''('' @ idn @ '')'')) \<and>
   (\<forall>frags. gen_exec_cbs obj = (frags, None) \<longrightarrow>
      (\<exists>cbs. map gen_exec_cb_name (mandatory_exec_fields obj) = map Inr cbs \<and>
         frags = concat (map (\<lambda>cb.
           [''static int '' @ cb @ ''(uint16_t obj_inst_id)\<newline>'',
            ''{\<newline>'',
            [CHR 0x09] @ ''/* FIXME: Add exec callback implementation here */\<newline>'',
            [CHR 0x09] @ ''return 0;\<newline>'',
            ''}\<newline>\<newline>'']) cbs)))"
proof (intro conjI allI impI)
  show "is_exec res = Inr True \<longleftrightarrow> operations res = Some ''E'' \<or> operations res = Some ''e''"
    by (rule is_exec_True_iff)
next
  fix frags
  assume "gen_data_struct obj = (frags, None)"
  then show "\<exists>t v members.
         gen_data_struct_type obj = Inr t \<and> gen_data_struct_var_name obj = Inr v \<and>
         list_all2 (\<lambda>r m. \<exists>ty suffix n. data_struct_type r = Inr (ty, suffix) \<and>
              name_format (r_name r) = Inr n \<and>
              m = [CHR 0x09] @ ty @ '' '' @ n @ suffix @ '';\<newline>'')
           (data_fields obj) members \<and>
         frags = [t @ '' {\<newline>''] @ members @
           [''};\<newline>\<newline>'',
            ''static '' @ t @ '' '' @ v
              @ (if \<not> o_singleton obj then ''[MAX_INSTANCE_COUNT]'' else '''') @ '';\<newline>\<newline>'']"
    by (rule gen_data_struct_frags)
next
  fix frags i
  assume g: "gen_fields obj = (frags, None)" and i: "i < length (resources obj)"
    and e: "is_exec (resources obj ! i) = Inr True"
  from gen_fields_frags [OF g i] obtain f where
    f: "gen_field obj (resources obj ! i) = Inr f" and at: "frags ! (2 + 3 * i) = [CHR 0x09] @ f"
    by blast
  from gen_field_exec [OF e f] obtain idn where
    idn: "gen_res_id_name obj (resources obj ! i) = Inr idn" and
    fe: "f = ''OBJ_FIELD_EXECUTE'' @ (if r_mandatory (resources obj ! i) then [] else ''_OPT'')
           @ ''('' @ idn @ '')''"
    by blast
  have "frags ! (2 + 3 * i) =
           [CHR 0x09] @ ''OBJ_FIELD_EXECUTE''
             @ (if r_mandatory (resources obj ! i) then [] else ''_OPT'') @ ''('' @ idn @ '')''"
    unfolding at fe ..
  with idn show "\<exists>idn. gen_res_id_name obj (resources obj ! i) = Inr idn \<and>
         frags ! (2 + 3 * i) =
           [CHR 0x09] @ ''OBJ_FIELD_EXECUTE''
             @ (if r_mandatory (resources obj ! i) then [] else ''_OPT'') @ ''('' @ idn @ '')''"
    by blast
next
  fix frags
  assume "gen_exec_cbs obj = (frags, None)"
  then show "\<exists>cbs. map gen_exec_cb_name (mandatory_exec_fields obj) = map Inr cbs \<and>
         frags = concat (map (\<lambda>cb.
           [''static int '' @ cb @ ''(uint16_t obj_inst_id)\<newline>'',
            ''{\<newline>'',
            [CHR 0x09] @ ''/* FIXME: Add exec callback implementation here */\<newline>'',
            [CHR 0x09] @ ''return 0;\<newline>'',
            ''}\<newline>\<newline>'']) cbs)"
    by (rule gen_exec_cbs_frags)
qed

lemma ex_field_b_exec: "is_exec ex_field_b = Inr True"
  by (rule is_exec_True_iff [THEN iffD2]) (simp add: ex_field_b_def)

lemma ex_field_a_not_exec: "is_exec ex_field_a = Inr False"
  by (simp add: is_exec_RW ex_field_a_def)


text \<open>
  Claim C10.  For a field that is not an execute field, the entry that \<^verbatim>\<open>gen_field\<close> returns
  is \<^verbatim>\<open>OBJ_FIELD_DATA(id, ops, tag)\<close> where \<open>ops\<close> is the operations string as it stands,
  followed by \<^verbatim>\<open>_OPT\<close> exactly when the field is not mandatory.
\<close>

theorem data_field_access_mode:
  assumes ne: "is_exec res = Inr False" and s: "gen_field obj res = Inr s"
  shows "\<exists>ops idn tg. operations res = Some ops \<and> gen_res_id_name obj res = Inr idn \<and>
     field_type_tag res = Inr tg \<and>
     s = ''OBJ_FIELD_DATA('' @ idn @ '', '' @ ops @ (if r_mandatory res then [] else ''_OPT'')
           @ '', '' @ tg @ '')''"
proof -
  from is_exec_False_ops [OF ne] obtain ops where ops: "operations res = Some ops" ..
  from s ne obtain tg where tg: "field_type_tag res = Inr tg"
    by (cases "field_type_tag res") (simp_all add: gen_field_def Let_def)
  from s ne tg obtain idn where idn: "gen_res_id_name obj res = Inr idn"
    by (cases "gen_res_id_name obj res") (simp_all add: gen_field_def Let_def)
  from s ne have "s = ''OBJ_FIELD_DATA('' @ idn @ '', '' @ ops @ (if r_mandatory res then [] else ''_OPT'')
           @ '', '' @ tg @ '')''"
    by (cases "r_mandatory res") (auto simp: gen_field_def Let_def tg idn ops str_opt_def)
  with ops idn tg show ?thesis by blast
qed

lemma ex_field_c_not_exec: "is_exec ex_field_c = Inr False"
  by (simp add: is_exec_def upper_def upper_char_def ex_field_c_def)

lemma ex_field_c_descr:
  "gen_field ex_object ex_field_c = Inr ''OBJ_FIELD_DATA(TEST_OBJECT_FIELD_C_ID, R_OPT, STRING)''"
  by code_simp

lemma ex_field_c_parts:
  "gen_res_id_name ex_object ex_field_c = Inr ''TEST_OBJECT_FIELD_C_ID''"
  "field_type_tag ex_field_c = Inr ''STRING''"
  "operations ex_field_c = Some ''R''"
  "\<not> r_mandatory ex_field_c"
  by code_simp+



theorem data_field_access_mode_witness:
  "is_exec ex_field_c = Inr False \<and>
   gen_field ex_object ex_field_c = Inr ''OBJ_FIELD_DATA(TEST_OBJECT_FIELD_C_ID, R_OPT, STRING)'' \<and>
   operations ex_field_c = Some ''R'' \<and> \<not> r_mandatory ex_field_c"
proof -
  from data_field_access_mode [OF ex_field_c_not_exec ex_field_c_descr]
  have "\<exists>ops. operations ex_field_c = Some ops" by (elim exE conjE) (rule exI)
  with ex_field_c_parts ex_field_c_not_exec ex_field_c_descr show ?thesis
    by (intro conjI)
qed

section \<open>Missing elements\<close>

lemma find_text_Inr_found: "find_text node t = Inr x \<Longrightarrow> et_find node t \<noteq> None"
  by (cases "et_find node t") (simp_all add: find_text_def)

lemma py_int_Inr_found: "py_int x = Inr i \<Longrightarrow> x \<noteq> None"
  by (cases x) (simp_all add: py_int_def)

lemma LWM2MResource_Inr_required:
  assumes "LWM2MResource lg res_node = Inr res"
  shows "et_get res_node ''ID'' \<noteq> None \<and> (\<forall>t \<in> set resource_required. et_find res_node t \<noteq> None)"
proof -
  from assms [unfolded LWM2MResource_def bind_r_Inr_iff]
  obtain i nm ops mi ma ty de where
    "py_int (et_get res_node ''ID'') = Inr i"
    "find_text res_node ''Name'' = Inr nm"
    "find_text res_node ''Operations'' = Inr ops"
    "find_text res_node ''MultipleInstances'' = Inr mi"
    "find_text res_node ''Mandatory'' = Inr ma"
    "find_text res_node ''Type'' = Inr ty"
    "find_text res_node ''Description'' = Inr de"
    apply (elim exE conjE)
    apply (rule that)
    apply assumption+
    done
  then show ?thesis
    by (auto simp: resource_required_def dest: find_text_Inr_found py_int_Inr_found)
qed

lemma build_resources_Inr:
  "build_resources lg ns = Inr rs \<Longrightarrow> list_all2 (\<lambda>n r. LWM2MResource lg n = Inr r) ns rs"
proof (induction ns arbitrary: rs)
  case Nil
  then show ?case by simp
next
  case (Cons n ns)
  from Cons.prems obtain r rs' where r: "LWM2MResource lg n = Inr r"
    and rs': "build_resources lg ns = Inr rs'" and eq: "rs = r # rs'"
    by (auto simp: bind_r_Inr_iff)
  from Cons.IH [OF rs'] r eq show ?case by simp
qed

lemma LWM2MObject_Inr:
  assumes "LWM2MObject lg node = Inr obj"
  shows "\<exists>obj_node. node = Some obj_node \<and>
     (\<forall>t \<in> set object_required. et_find obj_node t \<noteq> None) \<and>
     find_text obj_node ''Name'' = Inr (o_name obj) \<and>
     build_resources lg (findall_items obj_node) = Inr (resources obj)"
proof (cases node)
  case None
  with assms show ?thesis by (simp add: LWM2MObject_def)
next
  case (Some obj_node)
  with assms have "bind_r (find_text obj_node ''Name'') (\<lambda>nm.
          bind_r (find_text obj_node ''Description1'') (\<lambda>d1.
          bind_r (find_text obj_node ''ObjectID'') (\<lambda>idt.
          bind_r (py_int idt) (\<lambda>i.
          bind_r (find_text obj_node ''ObjectURN'') (\<lambda>urn.
          bind_r (find_text obj_node ''ObjectVersion'') (\<lambda>ver.
          bind_r (find_text obj_node ''MultipleInstances'') (\<lambda>mi.
          bind_r (find_text obj_node ''Mandatory'') (\<lambda>ma.
          bind_r (build_resources lg (findall_items obj_node)) (\<lambda>rs.
            Inr \<lparr> o_name = nm, desc1 = d1, o_id = i, objurn = urn, version = ver,
                  o_singleton = (mi = Some ''Single''),
                  o_mandatory = (ma = Some ''Mandatory''),
                  resources = rs \<rparr>))))))))) = Inr obj"
    by (simp add: LWM2MObject_def)
  from this [unfolded bind_r_Inr_iff]
  obtain nm d1 idt i urn ver mi ma rs where
    "find_text obj_node ''Name'' = Inr nm"
    "find_text obj_node ''Description1'' = Inr d1"
    "find_text obj_node ''ObjectID'' = Inr idt"
    "find_text obj_node ''ObjectURN'' = Inr urn"
    "find_text obj_node ''ObjectVersion'' = Inr ver"
    "find_text obj_node ''MultipleInstances'' = Inr mi"
    "find_text obj_node ''Mandatory'' = Inr ma"
    "build_resources lg (findall_items obj_node) = Inr rs"
    "Inr \<lparr> o_name = nm, desc1 = d1, o_id = i, objurn = urn, version = ver,
                  o_singleton = (mi = Some ''Single''),
                  o_mandatory = (ma = Some ''Mandatory''),
                  resources = rs \<rparr> = (Inr obj :: py_error + object)"
    apply (elim exE conjE)
    apply (rule that)
    apply assumption+
    done
  then have "(\<forall>t \<in> set object_required. et_find obj_node t \<noteq> None) \<and>
     find_text obj_node ''Name'' = Inr (o_name obj) \<and>
     build_resources lg (findall_items obj_node) = Inr (resources obj)"
    by (auto simp: object_required_def dest: find_text_Inr_found)
  with Some show ?thesis by simp
qed

lemma built_not_missing:
  assumes "LWM2MObject lg (et_find doc_root ''Object'') = Inr obj"
  shows "\<not> missing_required doc_root"
proof -
  from LWM2MObject_Inr [OF assms] obtain obj_node where
    node: "et_find doc_root ''Object'' = Some obj_node" and
    req: "\<forall>t \<in> set object_required. et_find obj_node t \<noteq> None" and
    rs: "build_resources lg (findall_items obj_node) = Inr (resources obj)"
    by blast
  have "\<forall>item \<in> set (findall_items obj_node).
      et_get item ''ID'' \<noteq> None \<and> (\<forall>t \<in> set resource_required. et_find item t \<noteq> None)"
  proof
    fix item assume "item \<in> set (findall_items obj_node)"
    with build_resources_Inr [OF rs] obtain r where "LWM2MResource lg item = Inr r"
      by (auto simp: list_all2_conv_all_nth in_set_conv_nth)
    then show "et_get item ''ID'' \<noteq> None \<and> (\<forall>t \<in> set resource_required. et_find item t \<noteq> None)"
      by (rule LWM2MResource_Inr_required)
  qed
  with node req show ?thesis by (auto simp: missing_required_def)
qed

text \<open>
  Claim C8.  When the document lacks the object element, one of the elements required of the
  object, or the \<^verbatim>\<open>ID\<close> attribute or a required element of some resource item, \<^verbatim>\<open>main\<close>
  ends with an exception and the world is as it was: nothing has been opened or written.
\<close>

theorem missing_element_raises_before_output:
  assumes "2 \<le> length argv" and "et_parse (argv ! 1) = Inr doc_root"
    and "missing_required doc_root"
  shows "\<exists>e. main lg argv et_parse w = (Some e, w)"
proof (cases "LWM2MObject lg (et_find doc_root ''Object'')")
  case (Inl e)
  with assms have "main lg argv et_parse w = (Some e, w)" by (simp add: main_def)
  then show ?thesis ..
next
  case (Inr obj)
  from built_not_missing [OF this] assms(3) show ?thesis by simp
qed

lemma int_of_str_9999: "int_of_str ''9999'' = Inr 9999"
  by (simp add: int_of_str_def strip_def is_space_def is_digit_def)

lemma ex_doc_object:
  "et_find (ex_doc m items) ''Object'' =
     Some (Element ''Object'' [(''ObjectType'', ''MODefinition'')] None
        ([leaf ''Name'' (Some ''T''), leaf ''Description1'' None, leaf ''ObjectID'' (Some ''9999''),
          leaf ''ObjectURN'' None, leaf ''ObjectVersion'' None,
          leaf ''MultipleInstances'' (Some ''Single'')]
         @ m @ [Element ''Resources'' [] None items]))"
  by (simp add: ex_doc_def et_find_def)

lemma ex_doc_no_mandatory: "LWM2MObject lg (et_find (ex_doc [] []) ''Object'') = Inl AttributeError"
  by (simp only: ex_doc_object)
     (simp add: LWM2MObject_def find_text_def et_find_def leaf_def py_int_def int_of_str_9999)

lemma ex_doc_missing: "missing_required (ex_doc [] [])"
  unfolding missing_required_def ex_doc_object
  by (simp add: object_required_def et_find_def leaf_def)

theorem missing_element_raises_before_output_witness:
  "2 \<le> length ex_argv \<and> missing_required (ex_doc [] []) \<and>
   main exact_log2 ex_argv (\<lambda>path. Inr (ex_doc [] [])) ex_world = (Some AttributeError, ex_world)"
proof -
  have a: "2 \<le> length ex_argv" by (simp add: ex_argv_def)
  have b: "(\<lambda>path. Inr (ex_doc [] [])) (ex_argv ! 1) = (Inr (ex_doc [] []) :: py_error + xml)"
    by simp
  from missing_element_raises_before_output [where lg = exact_log2 and w = ex_world, OF a b ex_doc_missing]
  obtain e where e: "main exact_log2 ex_argv (\<lambda>path. Inr (ex_doc [] [])) ex_world = (Some e, ex_world)" ..
  have "main exact_log2 ex_argv (\<lambda>path. Inr (ex_doc [] [])) ex_world = (Some AttributeError, ex_world)"
    using a by (simp add: main_def ex_doc_no_mandatory)
  with a ex_doc_missing e show ?thesis by simp
qed

section \<open>Generators that run to their end\<close>

lemma data_struct_type_unsupported:
  "r_type res \<notin> Some ` supported_types \<Longrightarrow>
   data_struct_type res = Inl (Exception ''Unhandled / bad resource type'')"
  by (simp add: data_struct_type_def supported_types_def)

lemma field_type_tag_unsupported:
  "r_type res \<notin> Some ` supported_types \<Longrightarrow>
   field_type_tag res = Inl (Exception ''Unhandled / bad resource type'')"
  by (simp add: field_type_tag_def supported_types_def)

lemma data_struct_type_supported:
  assumes "r_type res \<in> Some ` supported_types"
    and "r_type res = Some ''Integer'' \<longrightarrow> signed res \<noteq> None \<and> byte_size res \<noteq> None"
  shows "\<exists>p. data_struct_type res = Inr p"
  using assms by (auto simp: data_struct_type_def supported_types_def)

lemma field_type_tag_supported:
  assumes "r_type res \<in> Some ` supported_types"
    and "r_type res = Some ''Integer'' \<longrightarrow> signed res \<noteq> None \<and> byte_size res \<noteq> None"
  shows "\<exists>p. field_type_tag res = Inr p"
  using assms by (auto simp: field_type_tag_def supported_types_def)

lemma gen_file_head_ok: "o_name obj = Some n \<Longrightarrow> snd (gen_file_head obj) = None"
  by (simp add: gen_file_head_def name_format_Some)

lemma count_loop_ok:
  "\<forall>r \<in> set rs. \<exists>ex. is_exec r = Inr ex \<Longrightarrow> \<exists>p. count_loop rs n m = Inr p"
proof (induction rs arbitrary: n m)
  case Nil
  then show ?case by simp
next
  case (Cons r rs)
  then obtain ex where "is_exec r = Inr ex" by auto
  with Cons show ?case by simp
qed

lemma renderable_exec: "renderable r \<Longrightarrow> \<exists>ex. is_exec r = Inr ex"
  by (auto simp: renderable_def)

lemma renderable_name: "renderable r \<Longrightarrow> \<exists>m. r_name r = Some m"
  by (auto simp: renderable_def)

lemma gen_res_inst_count_ok:
  assumes n: "o_name obj = Some n"
    and ex: "\<forall>r \<in> set (resources obj). \<exists>ex. is_exec r = Inr ex"
    and nm: "\<forall>r \<in> set (resources obj). r_name r \<noteq> None"
  shows "snd (gen_res_inst_count obj) = None"
proof -
  from count_loop_ok [OF ex] obtain k m where loop: "count_loop (resources obj) 0 [] = Inr (k, m)"
    by (metis surj_pair)
  from count_loop_obj(2) [OF loop] have "set m \<subseteq> set (resources obj)"
    by (auto simp: multi_data_fields_def)
  with nm have names: "\<forall>r \<in> set m. \<exists>s. gen_res_max_name obj r = Inr s"
    using gen_res_max_name_ok [OF n] by (metis not_None_eq subsetD)
  have mx: "\<exists>s. gen_max_id obj = Inr s"
    by (simp add: gen_max_id_def def_format_Some n)
  have a: "snd (g_for m (\<lambda>res.
        g_yield_r (bind_r (gen_res_max_name obj res) (\<lambda>n. Inr ('' * add '' @ n @ ''\<newline>''))))) = None"
    using names by (auto simp: snd_g_for_None)
  have b: "snd (g_for m (\<lambda>res.
              g_yield_r (bind_r (gen_res_max_name obj res) (\<lambda>n.
                Inr ('' '' @ [CHR 0x5C] @ ''\<newline>                                 + '' @ n))))) = None"
    using names by (auto simp: snd_g_for_None)
  have c: "snd (inst_count_comment obj k m) = None"
    using a by (simp add: inst_count_comment_def)
  have d: "snd (inst_count_define obj k m) = None"
    using b mx by (auto simp: inst_count_define_def)
  show ?thesis using c d by (simp add: gen_res_inst_count_def loop)
qed

lemma data_struct_member_ok:
  assumes "renderable r"
  shows "snd (data_struct_member r) = None"
proof (cases "is_exec r = Inr True")
  case True
  then show ?thesis by (simp add: data_struct_member_def)
next
  case False
  with assms have ne: "is_exec r = Inr False"
    and ty: "r_type r \<in> Some ` supported_types"
    and ia: "r_type r = Some ''Integer'' \<longrightarrow> signed r \<noteq> None \<and> byte_size r \<noteq> None"
    by (auto simp: renderable_def)
  from data_struct_type_supported [OF ty ia] obtain a b where "data_struct_type r = Inr (a, b)"
    by (metis surj_pair)
  moreover from renderable_name [OF assms] obtain m where "r_name r = Some m" ..
  ultimately show ?thesis using ne
    by (simp add: data_struct_member_def name_format_Some)
qed

lemma gen_data_struct_ok:
  assumes n: "o_name obj = Some n" and rs: "\<forall>r \<in> set (resources obj). renderable r"
  shows "snd (gen_data_struct obj) = None"
proof -
  have "snd (g_for (resources obj) data_struct_member) = None"
    using rs by (simp add: snd_g_for_None data_struct_member_ok)
  then show ?thesis
    by (simp add: gen_data_struct_def gen_data_struct_type_def gen_data_struct_var_name_def
          name_format_Some n)
qed

lemma gen_field_ok:
  assumes n: "o_name obj = Some n" and r: "renderable r"
  shows "\<exists>s. gen_field obj r = Inr s"
proof -
  from renderable_name [OF r] obtain m where m: "r_name r = Some m" ..
  from gen_res_id_name_ok [OF n m] obtain idn where idn: "gen_res_id_name obj r = Inr idn" ..
  show ?thesis
  proof (cases "is_exec r = Inr True")
    case True
    then show ?thesis by (simp add: gen_field_def idn)
  next
    case False
    with r have ne: "is_exec r = Inr False"
      and ty: "r_type r \<in> Some ` supported_types"
      and ia: "r_type r = Some ''Integer'' \<longrightarrow> signed r \<noteq> None \<and> byte_size r \<noteq> None"
      by (auto simp: renderable_def)
    from field_type_tag_supported [OF ty ia] obtain tg where "field_type_tag r = Inr tg" ..
    with ne idn show ?thesis by (simp add: gen_field_def Let_def)
  qed
qed

lemma field_entry_ok:
  assumes n: "o_name obj = Some n" and r: "renderable (snd p)"
  shows "snd (field_entry obj p) = None"
proof -
  obtain ix res where p: "p = (ix, res)" by (cases p)
  with r have "renderable res" by simp
  from gen_field_ok [OF n this] obtain s where "gen_field obj res = Inr s" ..
  then show ?thesis by (simp add: field_entry_def p)
qed

lemma gen_fields_ok:
  assumes n: "o_name obj = Some n" and rs: "\<forall>r \<in> set (resources obj). renderable r"
  shows "snd (gen_fields obj) = None"
proof -
  have "\<forall>p \<in> set (enumerate 0 (resources obj)). renderable (snd p)"
    using rs by (auto simp: in_set_enumerate_eq)
  then have "snd (g_for (enumerate 0 (resources obj)) (field_entry obj)) = None"
    using field_entry_ok [OF n] by (simp add: snd_g_for_None)
  then show ?thesis
    by (simp add: gen_fields_def Let_def gen_max_id_def def_format_Some name_format_Some n)
qed

lemma exec_cb_stub_ok:
  assumes "renderable r"
  shows "snd (exec_cb_stub r) = None"
proof -
  from renderable_name [OF assms] obtain m where m: "r_name r = Some m" ..
  from renderable_exec [OF assms] obtain ex where "is_exec r = Inr ex" ..
  then show ?thesis
    by (simp add: exec_cb_stub_def gen_exec_cb_name_def name_format_Some m)
qed

lemma gen_exec_cbs_ok:
  "\<forall>r \<in> set (resources obj). renderable r \<Longrightarrow> snd (gen_exec_cbs obj) = None"
  by (simp add: gen_exec_cbs_def snd_g_for_None exec_cb_stub_ok)

lemma create_res_init_ok:
  assumes n: "o_name obj = Some n" and r: "renderable r"
  shows "snd (create_res_init obj data_str res_str res_inst_str r) = None"
proof -
  from renderable_name [OF r] obtain m where m: "r_name r = Some m" ..
  from renderable_exec [OF r] obtain ex where ex: "is_exec r = Inr ex" ..
  from gen_res_id_name_ok [OF n m] obtain idn where idn: "gen_res_id_name obj r = Inr idn" ..
  from gen_res_max_name_ok [OF n m] obtain mxn where mxn: "gen_res_max_name obj r = Inr mxn" ..
  show ?thesis
    by (simp add: create_res_init_def ex idn mxn gen_exec_cb_name_def name_format_Some m Let_def)
qed

lemma create_func_tail_ok:
  assumes n: "o_name obj = Some n" and rs: "\<forall>r \<in> set (resources obj). renderable r"
  shows "snd (create_func_tail obj data_str res_str res_inst_str inst_str) = None"
proof -
  have "snd (g_for (resources obj) (create_res_init obj data_str res_str res_inst_str)) = None"
    using rs create_res_init_ok [OF n] by (simp add: snd_g_for_None)
  then show ?thesis by (simp add: create_func_tail_def)
qed

lemma gen_create_func_ok:
  assumes n: "o_name obj = Some n" and rs: "\<forall>r \<in> set (resources obj). renderable r"
  shows "snd (gen_create_func obj) = None"
  using create_func_tail_ok [OF n rs]
  by (simp add: gen_create_func_def gen_data_struct_type_def gen_data_struct_var_name_def
        name_format_Some n)

lemma gen_init_func_ok: "o_name obj = Some n \<Longrightarrow> snd (gen_init_func obj) = None"
  by (simp add: gen_init_func_def gen_obj_id_def_def def_format_Some name_format_Some)

lemma renderable_names:
  "\<forall>r \<in> set rs. renderable r \<Longrightarrow> \<forall>r \<in> set rs. r_name r \<noteq> None"
  by (auto simp: renderable_def)

lemma renderable_execs:
  "\<forall>r \<in> set rs. renderable r \<Longrightarrow> \<forall>r \<in> set rs. \<exists>ex. is_exec r = Inr ex"
  by (auto simp: renderable_def)

lemma render_ok:
  assumes n: "o_name obj = Some n" and rs: "\<forall>r \<in> set (resources obj). renderable r"
  shows "snd (render obj) = None"
  using gen_file_head_ok [OF n] gen_res_defs_ok [OF n renderable_names [OF rs]]
    gen_res_inst_count_ok [OF n renderable_execs [OF rs] renderable_names [OF rs]]
    gen_data_struct_ok [OF n rs] gen_fields_ok [OF n rs]
    gen_exec_cbs_ok [OF rs] gen_create_func_ok [OF n rs] gen_init_func_ok [OF n]
  by (simp add: render_def)

section \<open>Unknown types\<close>

lemma data_struct_member_unsupported:
  assumes "is_exec res = Inr False" and "r_type res \<notin> Some ` supported_types"
  shows "data_struct_member res = ([], Some (Exception ''Unhandled / bad resource type''))"
  using assms
  by (simp add: data_struct_member_def data_struct_type_unsupported g_raise_def)

lemma gen_field_unsupported:
  assumes "is_exec res = Inr False" and "r_type res \<notin> Some ` supported_types"
  shows "gen_field obj res = Inl (Exception ''Unhandled / bad resource type'')"
  using assms by (simp add: gen_field_def Let_def field_type_tag_unsupported)

lemma g_for_error:
  assumes "x \<in> set xs" and "snd (f x) \<noteq> None"
  shows "snd (g_for xs f) \<noteq> None"
  using assms by (auto simp: snd_g_for_None)

lemma g_for_first_error:
  assumes "\<forall>x \<in> set xs. snd (f x) = None \<or> snd (f x) = Some e"
    and "\<exists>x \<in> set xs. snd (f x) = Some e"
  shows "snd (g_for xs f) = Some e"
  using assms
proof (induction xs)
  case Nil
  then show ?case by simp
next
  case (Cons x xs)
  show ?case
  proof (cases "snd (f x)")
    case None
    with Cons.prems have "\<exists>x \<in> set xs. snd (f x) = Some e" by auto
    moreover from Cons.prems have "\<forall>x \<in> set xs. snd (f x) = None \<or> snd (f x) = Some e" by simp
    ultimately have "snd (g_for xs f) = Some e" by (rule Cons.IH [rotated])
    with None show ?thesis by (simp add: g_for_def snd_g_then)
  next
    case (Some e')
    with Cons.prems have "e' = e" by auto
    with Some show ?thesis by (simp add: g_for_def snd_g_then)
  qed
qed

lemma gen_data_struct_error:
  assumes "res \<in> set (resources obj)" and "snd (data_struct_member res) \<noteq> None"
  shows "snd (gen_data_struct obj) \<noteq> None"
proof
  assume "snd (gen_data_struct obj) = None"
  then have "snd (g_for (resources obj) data_struct_member) = None"
    by (simp add: gen_data_struct_def)
  with assms show False by (simp add: snd_g_for_None)
qed

lemma render_error:
  "snd (gen_data_struct obj) \<noteq> None \<Longrightarrow> snd (render obj) \<noteq> None"
  by (auto simp: render_def)

text \<open>
  Claim C9, for fields that are not execute fields.  The type is compared with the seven
  spellings as it stands.  A field that is not an execute field and whose type is none of them,
  \<^verbatim>\<open>integer\<close> for one, has no Integer attributes; the loop body of \<^verbatim>\<open>gen_data_struct\<close> and
  \<^verbatim>\<open>gen_field\<close> both raise the unhandled-type exception for it; and rendering an object that
  holds it ends with an exception.
\<close>

theorem type_dispatch_exact_match:
  assumes "is_exec res = Inr False" and "r_type res \<notin> Some ` supported_types"
  shows "data_struct_member res = ([], Some (Exception ''Unhandled / bad resource type'')) \<and>
     gen_field obj res = Inl (Exception ''Unhandled / bad resource type'') \<and>
     (\<forall>res_node. LWM2MResource lg res_node = Inr res \<longrightarrow> signed res = None \<and> byte_size res = None) \<and>
     (res \<in> set (resources obj) \<longrightarrow> snd (gen_data_struct obj) \<noteq> None \<and> snd (render obj) \<noteq> None)"
proof (intro conjI allI impI)
  show m: "data_struct_member res = ([], Some (Exception ''Unhandled / bad resource type''))"
    using assms by (rule data_struct_member_unsupported)
  show "gen_field obj res = Inl (Exception ''Unhandled / bad resource type'')"
    using assms by (rule gen_field_unsupported)
  have ni: "r_type res \<noteq> Some ''Integer''"
    using assms(2) by (auto simp: supported_types_def)
  {
    fix res_node
    assume b: "LWM2MResource lg res_node = Inr res"
    from LWM2MResource_Inr(5) [OF b] ni show "signed res = None" by simp
    from LWM2MResource_Inr(5) [OF b] ni show "byte_size res = None" by simp
  }
  {
    assume i: "res \<in> set (resources obj)"
    from m have "snd (data_struct_member res) \<noteq> None" by simp
    from gen_data_struct_error [OF i this] show e: "snd (gen_data_struct obj) \<noteq> None" .
    from render_error [OF e] show "snd (render obj) \<noteq> None" .
  }
qed

lemma ex_item_resource:
  assumes "ty \<noteq> ''Integer''" and "ty \<noteq> []"
  shows "LWM2MResource lg (ex_item nm ops ty) = Inr (ex_resource nm ops ty)"
  using assms
  by (auto simp: LWM2MResource_def ex_item_def leaf_def find_text_def et_find_def et_get_def
        py_int_def int_of_str_1 is_exec_def ex_resource_def Let_def)

lemma ex_doc_built:
  assumes "ty \<noteq> ''Integer''" and "ty \<noteq> []"
  shows "LWM2MObject lg (et_find (ex_doc ex_mandatory [ex_item nm ops ty]) ''Object'') =
     Inr (ex_built [ex_resource nm ops ty])"
proof -
  define obj_node where "obj_node = Element ''Object'' [(''ObjectType'', ''MODefinition'')] None
        ([leaf ''Name'' (Some ''T''), leaf ''Description1'' None, leaf ''ObjectID'' (Some ''9999''),
          leaf ''ObjectURN'' None, leaf ''ObjectVersion'' None,
          leaf ''MultipleInstances'' (Some ''Single'')]
         @ ex_mandatory @ [Element ''Resources'' [] None [ex_item nm ops ty]])"
  have t: "tag (ex_item nm ops ty) = ''Item''" by (simp add: ex_item_def)
  have f: "findall_items obj_node = [ex_item nm ops ty]"
    by (simp add: obj_node_def findall_items_def leaf_def ex_mandatory_def t)
  have b: "build_resources lg [ex_item nm ops ty] = Inr [ex_resource nm ops ty]"
    by (simp add: ex_item_resource [OF assms])
  have s: "find_text obj_node ''Name'' = Inr (Some ''T'')"
    "find_text obj_node ''Description1'' = Inr None"
    "find_text obj_node ''ObjectID'' = Inr (Some ''9999'')"
    "find_text obj_node ''ObjectURN'' = Inr None"
    "find_text obj_node ''ObjectVersion'' = Inr None"
    "find_text obj_node ''MultipleInstances'' = Inr (Some ''Single'')"
    "find_text obj_node ''Mandatory'' = Inr (Some ''Mandatory'')"
    by (simp_all add: obj_node_def find_text_def et_find_def leaf_def ex_mandatory_def)
  have "LWM2MObject lg (Some obj_node) = Inr (ex_built [ex_resource nm ops ty])"
    by (simp add: LWM2MObject_def s f ex_item_resource [OF assms] py_int_def int_of_str_9999
          ex_built_def)
  then show ?thesis
    unfolding ex_doc_object obj_node_def .
qed

lemma main_built:
  assumes "2 \<le> length argv" and "et_parse (argv ! 1) = Inr doc_root"
    and "LWM2MObject lg (et_find doc_root ''Object'') = Inr obj"
    and "output_name obj = Inr path" and "open_error w path = None"
  shows "main lg argv et_parse w =
     (snd (render obj), w\<lparr>files := (files w)(path \<mapsto> concat (fst (render obj)))\<rparr>)"
  using assms by (simp add: main_def split: prod.splits)

lemma main_refused:
  assumes "2 \<le> length argv" and "et_parse (argv ! 1) = Inr doc_root"
    and "LWM2MObject lg (et_find doc_root ''Object'') = Inr obj"
    and "output_name obj = Inr path"
  shows "open_error w path = Some e \<longrightarrow> main lg argv et_parse w = (Some e, w)"
  using assms by (simp add: main_def)

lemma output_name_Some:
  "o_name obj = Some n \<Longrightarrow>
   output_name obj = Inr (''lwm2m_obj_'' @ replace_char CHR '' '' CHR ''_'' (lower n) @ ''_stub.c'')"
  by (simp add: output_name_def name_format_Some)

lemma main_ok:
  assumes "2 \<le> length argv" and "et_parse (argv ! 1) = Inr doc_root"
    and "LWM2MObject lg (et_find doc_root ''Object'') = Inr obj"
    and n: "o_name obj = Some n" and rs: "\<forall>r \<in> set (resources obj). renderable r"
    and op: "open_error w (''lwm2m_obj_'' @ replace_char CHR '' '' CHR ''_'' (lower n) @ ''_stub.c'') = None"
  shows "fst (main lg argv et_parse w) = None"
proof -
  note p = output_name_Some [OF n]
  from main_built [where lg = lg and argv = argv and et_parse = et_parse and doc_root = doc_root
      and w = w, OF assms(1) assms(2) assms(3) p op] render_ok [OF n rs]
  show ?thesis by simp
qed

lemma built_resources_wf:
  assumes "LWM2MObject lg node = Inr obj" and "r \<in> set (resources obj)"
  shows "(\<exists>ex. is_exec r = Inr ex) \<and>
    (r_type r = Some ''Integer'' \<longrightarrow> signed r \<noteq> None \<and> byte_size r \<noteq> None)"
proof -
  from LWM2MObject_Inr [OF assms(1)] obtain obj_node where
    "build_resources lg (findall_items obj_node) = Inr (resources obj)" by blast
  from build_resources_Inr [OF this] assms(2)
  obtain item where b: "LWM2MResource lg item = Inr r"
    by (auto simp: list_all2_conv_all_nth in_set_conv_nth)
  from LWM2MResource_Inr(4) [OF b] LWM2MResource_Inr(6) [OF b] show ?thesis by auto
qed

lemma render_unsupported:
  assumes n: "o_name obj = Some n"
    and names: "\<forall>r \<in> set (resources obj). r_name r \<noteq> None"
    and wf: "\<forall>r \<in> set (resources obj). (\<exists>ex. is_exec r = Inr ex) \<and>
        (r_type r = Some ''Integer'' \<longrightarrow> signed r \<noteq> None \<and> byte_size r \<noteq> None)"
    and bad: "\<exists>r \<in> set (resources obj). is_exec r = Inr False \<and> r_type r \<notin> Some ` supported_types"
  shows "snd (gen_file_head obj) = None" and "snd (gen_res_defs obj) = None"
    and "snd (gen_res_inst_count obj) = None"
    and "render obj =
      (fst (gen_file_head obj) @ fst (gen_res_defs obj) @ fst (gen_res_inst_count obj)
         @ fst (gen_data_struct obj),
       Some (Exception ''Unhandled / bad resource type''))"
proof -
  let ?E = "Exception ''Unhandled / bad resource type''"
  show a: "snd (gen_file_head obj) = None" using n by (rule gen_file_head_ok)
  show b: "snd (gen_res_defs obj) = None" using n names by (rule gen_res_defs_ok)
  from wf have ex: "\<forall>r \<in> set (resources obj). \<exists>ex. is_exec r = Inr ex" by simp
  show c: "snd (gen_res_inst_count obj) = None" using n ex names by (rule gen_res_inst_count_ok)
  have each: "\<forall>r \<in> set (resources obj).
      snd (data_struct_member r) = None \<or> snd (data_struct_member r) = Some ?E"
  proof
    fix r assume r: "r \<in> set (resources obj)"
    from wf r obtain ex where e: "is_exec r = Inr ex" by blast
    show "snd (data_struct_member r) = None \<or> snd (data_struct_member r) = Some ?E"
    proof (cases "ex \<or> r_type r \<in> Some ` supported_types")
      case True
      with e wf r names have "renderable r" by (cases ex) (auto simp: renderable_def)
      then show ?thesis by (simp add: data_struct_member_ok)
    next
      case False
      with e have "is_exec r = Inr False" "r_type r \<notin> Some ` supported_types" by simp_all
      then show ?thesis by (simp add: data_struct_member_unsupported)
    qed
  qed
  have some: "\<exists>r \<in> set (resources obj). snd (data_struct_member r) = Some ?E"
  proof -
    from bad obtain r where "r \<in> set (resources obj)" "is_exec r = Inr False"
      "r_type r \<notin> Some ` supported_types" by blast
    then have i: "r \<in> set (resources obj)"
      and j: "snd (data_struct_member r) = Some ?E"
      by (simp_all add: data_struct_member_unsupported)
    from j i show ?thesis by (rule bexI)
  qed
  have loop: "snd (g_for (resources obj) data_struct_member) = Some ?E"
    using each some by (rule g_for_first_error)
  have d: "snd (gen_data_struct obj) = Some ?E"
    by (simp add: gen_data_struct_def snd_g_then loop gen_data_struct_type_def
          gen_data_struct_var_name_def name_format_Some n)
  show "render obj =
      (fst (gen_file_head obj) @ fst (gen_res_defs obj) @ fst (gen_res_inst_count obj)
         @ fst (gen_data_struct obj), Some ?E)"
  proof -
    have ok: "\<And>g h. snd g = None \<Longrightarrow> g_then g h = (fst g @ fst h, snd h)"
      by (simp add: g_then_def)
    have "render obj =
        g_then (gen_file_head obj) (g_then (gen_res_defs obj) (g_then (gen_res_inst_count obj)
          (g_then (gen_data_struct obj)
             (g_all [gen_fields obj, gen_exec_cbs obj, gen_create_func obj, gen_init_func obj]))))"
      by (simp only: render_def g_all.simps)
    also have "\<dots> = g_then (gen_file_head obj) (g_then (gen_res_defs obj)
          (g_then (gen_res_inst_count obj) (gen_data_struct obj)))"
      by (simp only: g_then_error [OF d])
    also have "\<dots> = (fst (gen_file_head obj) @ fst (gen_res_defs obj)
         @ fst (gen_res_inst_count obj) @ fst (gen_data_struct obj), Some ?E)"
      by (simp only: ok [OF a] ok [OF b] ok [OF c] fst_conv snd_conv d)
    finally show ?thesis .
  qed
qed

lemma main_unsupported:
  assumes args: "2 \<le> length argv" and parsed: "et_parse (argv ! 1) = Inr doc_root"
    and built: "LWM2MObject lg (et_find doc_root ''Object'') = Inr obj"
    and n: "o_name obj = Some n"
    and names: "\<forall>r \<in> set (resources obj). r_name r \<noteq> None"
    and bad: "\<exists>r \<in> set (resources obj). is_exec r = Inr False \<and> r_type r \<notin> Some ` supported_types"
    and op: "open_error w (''lwm2m_obj_'' @ replace_char CHR '' '' CHR ''_'' (lower n) @ ''_stub.c'') = None"
  shows "main lg argv et_parse w =
     (Some (Exception ''Unhandled / bad resource type''),
      w\<lparr>files := (files w)
         (''lwm2m_obj_'' @ replace_char CHR '' '' CHR ''_'' (lower n) @ ''_stub.c'' \<mapsto>
          concat (fst (gen_file_head obj) @ fst (gen_res_defs obj) @ fst (gen_res_inst_count obj)
                    @ fst (gen_data_struct obj)))\<rparr>)"
proof -
  have wf: "\<forall>r \<in> set (resources obj). (\<exists>ex. is_exec r = Inr ex) \<and>
        (r_type r = Some ''Integer'' \<longrightarrow> signed r \<noteq> None \<and> byte_size r \<noteq> None)"
    using built_resources_wf [OF built] by blast
  note r = render_unsupported(4) [OF n names wf bad]
  note p = output_name_Some [OF n]
  from main_built [where lg = lg and argv = argv and et_parse = et_parse and doc_root = doc_root
      and w = w, OF args parsed built p op]
  show ?thesis by (simp add: r)
qed

text \<open>
  Claim C3, as the code has it.  The document is ASCII text and builds an object whose name
  and field names are present.  \<^verbatim>\<open>main\<close> then asks for the output file.

  \<^item> When the operating system refuses the file, the run ends with that exception and nothing
    has been created.

  \<^item> When the file is opened and some field that is not an execute field has a type outside
    the seven spellings, the run ends with the unhandled-type exception, raised while the
    data structure is written: the output file exists and holds the complete file head,
    resource definitions and resource instance count, and the fragments of the data
    structure yielded before the first such field.

  \<^item> When the file is opened and every field that is not an execute field has one of the
    seven spellings, the run ends without an exception and the file holds the whole
    rendering, whatever the types of the execute fields are.
\<close>

theorem unsupported_type_raises_partial_output:
  assumes "2 \<le> length argv" and "et_parse (argv ! 1) = Inr doc_root"
    and "ascii_xml doc_root"
    and "LWM2MObject lg (et_find doc_root ''Object'') = Inr obj"
    and "o_name obj = Some n"
    and "\<forall>r \<in> set (resources obj). r_name r \<noteq> None"
  shows "(\<forall>e. open_error w (''lwm2m_obj_'' @ replace_char CHR '' '' CHR ''_'' (lower n) @ ''_stub.c'') = Some e \<longrightarrow>
        main lg argv et_parse w = (Some e, w)) \<and>
     (open_error w (''lwm2m_obj_'' @ replace_char CHR '' '' CHR ''_'' (lower n) @ ''_stub.c'') = None \<longrightarrow>
      (\<exists>r \<in> set (resources obj). is_exec r = Inr False \<and> r_type r \<notin> Some ` supported_types) \<longrightarrow>
        main lg argv et_parse w =
          (Some (Exception ''Unhandled / bad resource type''),
           w\<lparr>files := (files w)
              (''lwm2m_obj_'' @ replace_char CHR '' '' CHR ''_'' (lower n) @ ''_stub.c'' \<mapsto>
               concat (fst (gen_file_head obj) @ fst (gen_res_defs obj)
                         @ fst (gen_res_inst_count obj) @ fst (gen_data_struct obj)))\<rparr>) \<and>
        snd (gen_file_head obj) = None \<and> snd (gen_res_defs obj) = None \<and>
        snd (gen_res_inst_count obj) = None) \<and>
     (open_error w (''lwm2m_obj_'' @ replace_char CHR '' '' CHR ''_'' (lower n) @ ''_stub.c'') = None \<longrightarrow>
      (\<forall>r \<in> set (resources obj). is_exec r = Inr False \<longrightarrow> r_type r \<in> Some ` supported_types) \<longrightarrow>
        main lg argv et_parse w =
          (None,
           w\<lparr>files := (files w)
              (''lwm2m_obj_'' @ replace_char CHR '' '' CHR ''_'' (lower n) @ ''_stub.c'' \<mapsto>
               concat (fst (render obj)))\<rparr>))"
proof (intro conjI allI impI)
  let ?path = "''lwm2m_obj_'' @ replace_char CHR '' '' CHR ''_'' (lower n) @ ''_stub.c''"
  note p = output_name_Some [OF assms(5)]
  have wf: "\<forall>r \<in> set (resources obj). (\<exists>ex. is_exec r = Inr ex) \<and>
        (r_type r = Some ''Integer'' \<longrightarrow> signed r \<noteq> None \<and> byte_size r \<noteq> None)"
    using built_resources_wf [OF assms(4)] by blast
  {
    fix e
    assume "open_error w ?path = Some e"
    with main_refused [where lg = lg and argv = argv and et_parse = et_parse
        and doc_root = doc_root and w = w, OF assms(1) assms(2) assms(4) p]
    show "main lg argv et_parse w = (Some e, w)" by simp
  }
  {
    assume op: "open_error w ?path = None"
      and bad: "\<exists>r \<in> set (resources obj). is_exec r = Inr False \<and> r_type r \<notin> Some ` supported_types"
    from main_unsupported [where lg = lg and argv = argv and et_parse = et_parse
        and doc_root = doc_root and w = w, OF assms(1) assms(2) assms(4) assms(5) assms(6) bad op]
    show "main lg argv et_parse w =
          (Some (Exception ''Unhandled / bad resource type''),
           w\<lparr>files := (files w)
              (?path \<mapsto>
               concat (fst (gen_file_head obj) @ fst (gen_res_defs obj)
                         @ fst (gen_res_inst_count obj) @ fst (gen_data_struct obj)))\<rparr>)" .
    from render_unsupported(1-3) [OF assms(5) assms(6) wf bad]
    show "snd (gen_file_head obj) = None" and "snd (gen_res_defs obj) = None"
      and "snd (gen_res_inst_count obj) = None" .
  }
  {
    assume op: "open_error w ?path = None"
      and good: "\<forall>r \<in> set (resources obj). is_exec r = Inr False \<longrightarrow> r_type r \<in> Some ` supported_types"
    have rs: "\<forall>r \<in> set (resources obj). renderable r"
    proof
      fix r assume r: "r \<in> set (resources obj)"
      with wf obtain ex where ex: "is_exec r = Inr ex" by blast
      from wf r have ia: "r_type r = Some ''Integer'' \<longrightarrow> signed r \<noteq> None \<and> byte_size r \<noteq> None"
        by blast
      from assms(6) r have nm: "r_name r \<noteq> None" by blast
      show "renderable r"
      proof (cases ex)
        case True
        with ex nm show ?thesis by (simp add: renderable_def)
      next
        case False
        with ex have ne: "is_exec r = Inr False" by simp
        with good r have "r_type r \<in> Some ` supported_types" by blast
        with ne ia nm show ?thesis by (simp add: renderable_def)
      qed
    qed
    from main_built [where lg = lg and argv = argv and et_parse = et_parse
        and doc_root = doc_root and w = w, OF assms(1) assms(2) assms(4) p op]
      render_ok [OF assms(5) rs]
    show "main lg argv et_parse w =
          (None, w\<lparr>files := (files w)(?path \<mapsto> concat (fst (render obj)))\<rparr>)"
      by simp
  }
qed

lemma ex_argv_length: "2 \<le> length ex_argv"
  by (simp add: ex_argv_def)

lemma ex_parse_argv: "ex_parse doc (ex_argv ! 1) = Inr doc"
  by (simp add: ex_parse_def)

lemma ex_built_fields:
  "o_name (ex_built rs) = Some ''T''" "resources (ex_built rs) = rs"
  by (simp_all add: ex_built_def)

lemma ex_resource_fields:
  "r_name (ex_resource nm ops ty) = Some nm" "operations (ex_resource nm ops ty) = Some ops"
  "r_type (ex_resource nm ops ty) = Some ty" "signed (ex_resource nm ops ty) = None"
  "byte_size (ex_resource nm ops ty) = None"
  by (simp_all add: ex_resource_def)

lemma ex_output_path:
  "''lwm2m_obj_'' @ replace_char CHR '' '' CHR ''_'' (lower ''T'') @ ''_stub.c'' = ''lwm2m_obj_t_stub.c''"
  by code_simp

lemma ex_corge_not_exec: "is_exec (ex_resource ''A'' ''RW'' ty) = Inr False"
  by (simp add: is_exec_RW ex_resource_fields)

lemma ex_exec_e: "is_exec (ex_resource ''A'' ''e'' ty) = Inr True"
  by (rule is_exec_True_iff [THEN iffD2]) (simp add: ex_resource_fields)

lemma corge_unsupported: "Some ''Corge'' \<notin> Some ` supported_types"
  by (simp add: supported_types_def)

lemma integer_lower_unsupported: "Some ''integer'' \<notin> Some ` supported_types"
  by (simp add: supported_types_def)

lemma ex_corge_struct_head:
  "fst (gen_data_struct (ex_built [ex_resource ''A'' ''RW'' ''Corge''])) = [''struct t_data_t {\<newline>'']"
  by code_simp

lemma corge_built: "LWM2MObject lg (et_find corge_doc ''Object'') = Inr corge_object"
  unfolding corge_doc_def corge_object_def by (rule ex_doc_built) simp_all

lemma corge_facts:
  "o_name corge_object = Some ''T''"
  "\<forall>r \<in> set (resources corge_object). r_name r \<noteq> None"
  "\<exists>r \<in> set (resources corge_object). is_exec r = Inr False \<and> r_type r \<notin> Some ` supported_types"
  by (simp_all add: corge_object_def ex_built_fields ex_resource_fields ex_corge_not_exec
        corge_unsupported)

lemma ex_world_opens: "open_error ex_world path = None"
  by (simp add: ex_world_def)

lemma refusing_world_refuses: "open_error refusing_world path = Some OSError"
  by (simp add: refusing_world_def)

lemma exec_doc_runs:
  assumes "ty \<noteq> ''Integer''" and "ty \<noteq> []"
  shows "fst (main lg ex_argv (ex_parse (ex_doc ex_mandatory [ex_item ''A'' ''e'' ty])) ex_world) = None"
proof -
  have r: "\<forall>r \<in> set (resources (ex_built [ex_resource ''A'' ''e'' ty])). renderable r"
    by (simp add: ex_built_fields renderable_def ex_resource_fields ex_exec_e)
  show ?thesis
    by (rule main_ok [where argv = ex_argv
          and et_parse = "ex_parse (ex_doc ex_mandatory [ex_item ''A'' ''e'' ty])"
          and doc_root = "ex_doc ex_mandatory [ex_item ''A'' ''e'' ty]"
          and obj = "ex_built [ex_resource ''A'' ''e'' ty]"
          and n = "''T''", OF ex_argv_length ex_parse_argv ex_doc_built [OF assms]
          ex_built_fields(1) r ex_world_opens])
qed

lemma ex_doc_ascii:
  "ascii nm \<Longrightarrow> ascii ops \<Longrightarrow> ascii ty \<Longrightarrow> ascii_xml (ex_doc ex_mandatory [ex_item nm ops ty])"
  by (simp add: ex_doc_def ex_item_def ex_mandatory_def leaf_def ascii_def)

lemma corge_ascii: "ascii_xml corge_doc" "ascii_xml exec_corge_doc"
  unfolding corge_doc_def exec_corge_doc_def
  by (rule ex_doc_ascii; simp add: ascii_def)+

lemma exec_corge_built:
  "LWM2MObject lg (et_find exec_corge_doc ''Object'') = Inr exec_corge_object"
  unfolding exec_corge_doc_def exec_corge_object_def by (rule ex_doc_built) simp_all

lemma exec_corge_facts:
  "o_name exec_corge_object = Some ''T''"
  "\<forall>r \<in> set (resources exec_corge_object). r_name r \<noteq> None"
  "\<forall>r \<in> set (resources exec_corge_object).
     is_exec r = Inr False \<longrightarrow> r_type r \<in> Some ` supported_types"
  by (simp_all add: exec_corge_object_def ex_built_fields ex_resource_fields ex_exec_e)

theorem unsupported_type_raises_partial_output_witness:
  "2 \<le> length ex_argv \<and> ascii_xml corge_doc \<and>
   LWM2MObject exact_log2 (et_find corge_doc ''Object'') = Inr corge_object \<and>
   open_error ex_world ''lwm2m_obj_t_stub.c'' = None \<and>
   main exact_log2 ex_argv (ex_parse corge_doc) ex_world =
     (Some (Exception ''Unhandled / bad resource type''),
      ex_world\<lparr>files := (files ex_world)
         (''lwm2m_obj_t_stub.c'' \<mapsto>
          concat (fst (gen_file_head corge_object) @ fst (gen_res_defs corge_object)
                    @ fst (gen_res_inst_count corge_object) @ [''struct t_data_t {\<newline>'']))\<rparr>) \<and>
   open_error refusing_world ''lwm2m_obj_t_stub.c'' = Some OSError \<and>
   main exact_log2 ex_argv (ex_parse corge_doc) refusing_world = (Some OSError, refusing_world) \<and>
   ascii_xml exec_corge_doc \<and>
   LWM2MObject exact_log2 (et_find exec_corge_doc ''Object'') = Inr exec_corge_object \<and>
   main exact_log2 ex_argv (ex_parse exec_corge_doc) ex_world =
     (None,
      ex_world\<lparr>files := (files ex_world)
         (''lwm2m_obj_t_stub.c'' \<mapsto> concat (fst (render exec_corge_object)))\<rparr>)"
proof -
  note t = unsupported_type_raises_partial_output [where lg = exact_log2 and argv = ex_argv
      and et_parse = "ex_parse corge_doc" and doc_root = corge_doc and w = ex_world,
      OF ex_argv_length ex_parse_argv corge_ascii(1) corge_built corge_facts(1) corge_facts(2),
      unfolded ex_output_path]
  note u = unsupported_type_raises_partial_output [where lg = exact_log2 and argv = ex_argv
      and et_parse = "ex_parse corge_doc" and doc_root = corge_doc and w = refusing_world,
      OF ex_argv_length ex_parse_argv corge_ascii(1) corge_built corge_facts(1) corge_facts(2),
      unfolded ex_output_path]
  note v = unsupported_type_raises_partial_output [where lg = exact_log2 and argv = ex_argv
      and et_parse = "ex_parse exec_corge_doc" and doc_root = exec_corge_doc and w = ex_world,
      OF ex_argv_length ex_parse_argv corge_ascii(2) exec_corge_built exec_corge_facts(1)
        exec_corge_facts(2), unfolded ex_output_path]
  note o1 = ex_world_opens [of "''lwm2m_obj_t_stub.c''"]
  note o2 = refusing_world_refuses [of "''lwm2m_obj_t_stub.c''"]
  note a = t [THEN conjunct2, THEN conjunct1, THEN mp, THEN mp, OF o1 corge_facts(3),
      THEN conjunct1, unfolded ex_corge_struct_head [folded corge_object_def]]
  note b = u [THEN conjunct1, THEN spec, THEN mp, OF o2]
  note c = v [THEN conjunct2, THEN conjunct2, THEN mp, THEN mp, OF o1 exec_corge_facts(3)]
  from ex_argv_length corge_ascii(1) corge_built [of exact_log2] o1 a o2 b corge_ascii(2)
    exec_corge_built [of exact_log2] c
  show ?thesis by (intro conjI)
qed

theorem unsupported_type_counterexample:
  "open_error ex_world ''lwm2m_obj_t_stub.c'' = None \<and>
   fst (main exact_log2 ex_argv (ex_parse corge_doc) ex_world) =
     Some (Exception ''Unhandled / bad resource type'') \<and>
   files ex_world ''lwm2m_obj_t_stub.c'' = None \<and>
   files (snd (main exact_log2 ex_argv (ex_parse corge_doc) ex_world)) ''lwm2m_obj_t_stub.c'' =
     Some (concat (fst (gen_file_head corge_object) @ fst (gen_res_defs corge_object)
                    @ fst (gen_res_inst_count corge_object) @ [''struct t_data_t {\<newline>''])) \<and>
   fst (main exact_log2 ex_argv (ex_parse exec_corge_doc) ex_world) = None"
proof -
  note m = main_unsupported [where lg = exact_log2 and argv = ex_argv
      and et_parse = "ex_parse corge_doc" and doc_root = corge_doc and w = ex_world,
      OF ex_argv_length ex_parse_argv corge_built corge_facts ex_world_opens]
  have e: "fst (main exact_log2 ex_argv (ex_parse exec_corge_doc) ex_world) = None"
    unfolding exec_corge_doc_def by (rule exec_doc_runs) simp_all
  have w: "files ex_world ''lwm2m_obj_t_stub.c'' = None" by (simp add: ex_world_def)
  from m e w ex_world_opens [of "''lwm2m_obj_t_stub.c''"] show ?thesis
    by (simp only: ex_output_path ex_corge_struct_head [folded corge_object_def]) simp
qed

theorem type_dispatch_exact_match_witness:
  "is_exec (ex_resource ''A'' ''RW'' ''integer'') = Inr False \<and>
   r_type (ex_resource ''A'' ''RW'' ''integer'') \<notin> Some ` supported_types \<and>
   data_struct_member (ex_resource ''A'' ''RW'' ''integer'') =
     ([], Some (Exception ''Unhandled / bad resource type'')) \<and>
   gen_field integer_lower_object (ex_resource ''A'' ''RW'' ''integer'') =
     Inl (Exception ''Unhandled / bad resource type'') \<and>
   ex_resource ''A'' ''RW'' ''integer'' \<in> set (resources integer_lower_object) \<and>
   snd (gen_data_struct integer_lower_object) \<noteq> None \<and>
   snd (render integer_lower_object) \<noteq> None"
proof -
  have a: "is_exec (ex_resource ''A'' ''RW'' ''integer'') = Inr False"
    by (rule ex_corge_not_exec)
  have b: "r_type (ex_resource ''A'' ''RW'' ''integer'') \<notin> Some ` supported_types"
    by (simp only: ex_resource_fields integer_lower_unsupported) simp
  have c: "ex_resource ''A'' ''RW'' ''integer'' \<in> set (resources integer_lower_object)"
    by (simp add: integer_lower_object_def ex_built_fields)
  note t = type_dispatch_exact_match [OF a b, where obj = integer_lower_object and lg = exact_log2]
  from t [THEN conjunct1] t [THEN conjunct2, THEN conjunct1]
    t [THEN conjunct2, THEN conjunct2, THEN conjunct2, THEN mp, OF c] a b c
  show ?thesis by (intro conjI) (erule conjunct1 conjunct2 | assumption)+
qed

theorem type_dispatch_execute_counterexample:
  "LWM2MResource exact_log2 (ex_item ''A'' ''e'' ''integer'') = Inr (ex_resource ''A'' ''e'' ''integer'') \<and>
   r_type (ex_resource ''A'' ''e'' ''integer'') = Some ''integer'' \<and>
   signed (ex_resource ''A'' ''e'' ''integer'') = None \<and>
   byte_size (ex_resource ''A'' ''e'' ''integer'') = None \<and>
   is_exec (ex_resource ''A'' ''e'' ''integer'') = Inr True \<and>
   fst (main exact_log2 ex_argv (ex_parse exec_integer_doc) ex_world) = None"
proof -
  have a: "LWM2MResource exact_log2 (ex_item ''A'' ''e'' ''integer'') = Inr (ex_resource ''A'' ''e'' ''integer'')"
    by (rule ex_item_resource) simp_all
  have e: "fst (main exact_log2 ex_argv (ex_parse exec_integer_doc) ex_world) = None"
    unfolding exec_integer_doc_def by (rule exec_doc_runs) simp_all
  from a e ex_exec_e [of "''integer''"] show ?thesis
    by (simp add: ex_resource_fields)
qed

section \<open>The execute field of the example object\<close>

lemma ex_object_name: "o_name ex_object = Some ''Test Object''"
  by (simp add: ex_object_def)

lemma ex_object_resources: "resources ex_object = [ex_field_a, ex_field_b, ex_field_c]"
  by (simp add: ex_object_def)

lemma ex_object_renderable: "\<forall>r \<in> set (resources ex_object). renderable r"
proof -
  have "renderable ex_field_a"
    by (simp add: renderable_def ex_field_a_not_exec supported_types_def) (auto simp: ex_field_a_def)
  moreover have "renderable ex_field_b"
    by (simp add: renderable_def ex_field_b_exec) (simp add: ex_field_b_def)
  moreover have "renderable ex_field_c"
    by (simp add: renderable_def ex_field_c_not_exec supported_types_def) (auto simp: ex_field_c_def)
  ultimately show ?thesis by (simp add: ex_object_resources)
qed

lemma ex_object_fields:
  "data_fields ex_object = [ex_field_a, ex_field_c]"
  "mandatory_exec_fields ex_object = [ex_field_b]"
  by (simp_all add: data_fields_def mandatory_exec_fields_def ex_object_resources
        ex_field_a_not_exec ex_field_b_exec ex_field_c_not_exec)
     (simp add: ex_field_b_def)

lemma ex_object_struct_names:
  "gen_data_struct_type ex_object = Inr ''struct test_object_data_t''"
  "gen_data_struct_var_name ex_object = Inr ''test_object_data''"
  by code_simp+

lemma ex_member_parts:
  "data_struct_type ex_field_a = Inr (''uint8_t'', '''')"
  "name_format (r_name ex_field_a) = Inr ''field_a''"
  "data_struct_type ex_field_c = Inr (''char'', ''[64]'')"
  "name_format (r_name ex_field_c) = Inr ''field_c''"
  by code_simp+

lemma ex_field_b_names:
  "gen_res_id_name ex_object ex_field_b = Inr ''TEST_OBJECT_FIELD_B_ID''"
  "gen_exec_cb_name ex_field_b = Inr ''state_field_b_exec_cb''"
  by code_simp+

lemma ran_to_end: "snd g = None \<Longrightarrow> g = (fst g, None)"
  by (simp add: prod_eq_iff)

theorem execute_only_fields_witness:
  "is_exec ex_field_b = Inr True \<and> operations ex_field_b = Some ''E'' \<and>
   data_fields ex_object = [ex_field_a, ex_field_c] \<and>
   mandatory_exec_fields ex_object = [ex_field_b] \<and>
   gen_data_struct ex_object =
     ([''struct test_object_data_t {\<newline>'',
       [CHR 0x09] @ ''uint8_t field_a;\<newline>'',
       [CHR 0x09] @ ''char field_c[64];\<newline>'',
       ''};\<newline>\<newline>'',
       ''static struct test_object_data_t test_object_data[MAX_INSTANCE_COUNT];\<newline>\<newline>''], None) \<and>
   snd (gen_fields ex_object) = None \<and>
   resources ex_object ! 1 = ex_field_b \<and>
   fst (gen_fields ex_object) ! 5 = [CHR 0x09] @ ''OBJ_FIELD_EXECUTE(TEST_OBJECT_FIELD_B_ID)'' \<and>
   gen_exec_cbs ex_object =
     ([''static int state_field_b_exec_cb(uint16_t obj_inst_id)\<newline>'',
       ''{\<newline>'',
       [CHR 0x09] @ ''/* FIXME: Add exec callback implementation here */\<newline>'',
       [CHR 0x09] @ ''return 0;\<newline>'',
       ''}\<newline>\<newline>''], None)"
proof -
  note n = ex_object_name
  note rs = ex_object_renderable
  note d = ran_to_end [OF gen_data_struct_ok [OF n rs]]
  note f = ran_to_end [OF gen_fields_ok [OF n rs]]
  note c = ran_to_end [OF gen_exec_cbs_ok [OF rs]]
  note T = execute_only_fields [of ex_field_b ex_object]
  have ops: "operations ex_field_b = Some ''E''" by (simp add: ex_field_b_def)
  have e: "is_exec ex_field_b = Inr True"
    using T [THEN conjunct1] ops by simp
  have b1: "resources ex_object ! 1 = ex_field_b" by (simp add: ex_object_resources)
  have s: "\<not> o_singleton ex_object" and m: "r_mandatory ex_field_b"
    by (simp_all add: ex_object_def ex_field_b_def)
  from T [THEN conjunct2, THEN conjunct1, THEN spec, THEN mp, OF d]
  obtain t v members where
    t: "gen_data_struct_type ex_object = Inr t" and
    v: "gen_data_struct_var_name ex_object = Inr v" and
    la: "list_all2 (\<lambda>r m. \<exists>ty suffix n. data_struct_type r = Inr (ty, suffix) \<and>
              name_format (r_name r) = Inr n \<and>
              m = [CHR 0x09] @ ty @ '' '' @ n @ suffix @ '';\<newline>'')
           (data_fields ex_object) members" and
    fr: "fst (gen_data_struct ex_object) = [t @ '' {\<newline>''] @ members @
           [''};\<newline>\<newline>'',
            ''static '' @ t @ '' '' @ v
              @ (if \<not> o_singleton ex_object then ''[MAX_INSTANCE_COUNT]'' else '''') @ '';\<newline>\<newline>'']"
    apply (elim exE conjE)
    apply (rule that)
    apply assumption+
    done
  from t v have tv: "t = ''struct test_object_data_t''" "v = ''test_object_data''"
    by (simp_all add: ex_object_struct_names)
  from la obtain m1 m2 where ms: "members = [m1, m2]" and
    p1: "\<exists>ty suffix n. data_struct_type ex_field_a = Inr (ty, suffix) \<and>
              name_format (r_name ex_field_a) = Inr n \<and>
              m1 = [CHR 0x09] @ ty @ '' '' @ n @ suffix @ '';\<newline>''" and
    p2: "\<exists>ty suffix n. data_struct_type ex_field_c = Inr (ty, suffix) \<and>
              name_format (r_name ex_field_c) = Inr n \<and>
              m2 = [CHR 0x09] @ ty @ '' '' @ n @ suffix @ '';\<newline>''"
    unfolding ex_object_fields list_all2_Cons1 list_all2_Nil by blast
  from p1 have m1: "m1 = [CHR 0x09] @ ''uint8_t field_a;\<newline>''"
    by (simp add: ex_member_parts)
  from p2 have m2: "m2 = [CHR 0x09] @ ''char field_c[64];\<newline>''"
    by (simp add: ex_member_parts)
  have ds: "gen_data_struct ex_object =
     ([''struct test_object_data_t {\<newline>'',
       [CHR 0x09] @ ''uint8_t field_a;\<newline>'',
       [CHR 0x09] @ ''char field_c[64];\<newline>'',
       ''};\<newline>\<newline>'',
       ''static struct test_object_data_t test_object_data[MAX_INSTANCE_COUNT];\<newline>\<newline>''], None)"
    by (subst d) (simp add: fr ms m1 m2 tv s)
  have i: "(1 :: nat) < length (resources ex_object)" by (simp add: ex_object_resources)
  have e1: "is_exec (resources ex_object ! 1) = Inr True" by (simp only: b1 e)
  from T [THEN conjunct2, THEN conjunct2, THEN conjunct1, THEN spec, THEN spec, THEN mp, THEN mp,
      THEN mp, OF f i e1]
  obtain idn where idn: "gen_res_id_name ex_object (resources ex_object ! 1) = Inr idn" and
    at: "fst (gen_fields ex_object) ! (2 + 3 * 1) =
           [CHR 0x09] @ ''OBJ_FIELD_EXECUTE''
             @ (if r_mandatory (resources ex_object ! 1) then [] else ''_OPT'') @ ''('' @ idn @ '')''"
    apply (elim exE conjE)
    apply (rule that)
    apply assumption+
    done
  from idn [unfolded b1] have "idn = ''TEST_OBJECT_FIELD_B_ID''" by (simp add: ex_field_b_names)
  with at [unfolded b1] have ft: "fst (gen_fields ex_object) ! 5 = [CHR 0x09] @ ''OBJ_FIELD_EXECUTE(TEST_OBJECT_FIELD_B_ID)''"
    by (simp add: m)
  from T [THEN conjunct2, THEN conjunct2, THEN conjunct2, THEN spec, THEN mp, OF c]
  obtain cbs where
    cn: "map gen_exec_cb_name (mandatory_exec_fields ex_object) = map Inr cbs" and
    cf: "fst (gen_exec_cbs ex_object) = concat (map (\<lambda>cb.
           [''static int '' @ cb @ ''(uint16_t obj_inst_id)\<newline>'',
            ''{\<newline>'',
            [CHR 0x09] @ ''/* FIXME: Add exec callback implementation here */\<newline>'',
            [CHR 0x09] @ ''return 0;\<newline>'',
            ''}\<newline>\<newline>'']) cbs)"
    apply (elim exE conjE)
    apply (rule that)
    apply assumption+
    done
  from cn have "cbs = [''state_field_b_exec_cb'']"
    by (cases cbs) (auto simp: ex_object_fields ex_field_b_names)
  with cf have cb: "gen_exec_cbs ex_object =
     ([''static int state_field_b_exec_cb(uint16_t obj_inst_id)\<newline>'',
       ''{\<newline>'',
       [CHR 0x09] @ ''/* FIXME: Add exec callback implementation here */\<newline>'',
       [CHR 0x09] @ ''return 0;\<newline>'',
       ''}\<newline>\<newline>''], None)"
    by (subst c) simp
  from e ops ex_object_fields ds gen_fields_ok [OF n rs] b1 ft cb
  show ?thesis by (intro conjI)
qed

end
